theory Spec2Isabelle
  imports Main "HOL-Library.Word" "HOL-Library.Monad_Syntax" "HOL-Library.Signed_Division"
begin

unbundle bit_operations_syntax

section \<open>The byte stream\<close>

text \<open>
  Both \<^verbatim>\<open>matroskaenc.c\<close> and \<^verbatim>\<open>mxf.c\<close> work on a \<^verbatim>\<open>ByteIOContext\<close>, whose
  implementation is not part of the two files. It is modelled as the bytes of the file
  and a cursor. Offsets the C code keeps in \<^verbatim>\<open>offset_t\<close> variables are integers;
  \<^verbatim>\<open>uint64_t\<close> is \<open>64 word\<close>, \<^verbatim>\<open>unsigned int\<close> is \<open>32 word\<close>, \<^verbatim>\<open>uint8_t\<close> is
  \<open>8 word\<close>.
\<close>

type_synonym byte = "8 word"

record ByteIOContext =
  buf :: "byte list"
  pos :: nat

text \<open>Modelled from the spec: \<^verbatim>\<open>tell()\<close> of the byte stream (\<^verbatim>\<open>url_ftell\<close>, absent from
  the sources): the offset of the cursor.\<close>

definition url_ftell :: "ByteIOContext \<Rightarrow> int" where
  "url_ftell pb = int (pos pb)"

text \<open>Modelled from the spec: \<^verbatim>\<open>eof()\<close> of the byte stream (\<^verbatim>\<open>url_feof\<close>, absent from
  the sources): no byte is left at the cursor.\<close>

definition url_feof :: "ByteIOContext \<Rightarrow> bool" where
  "url_feof pb = (length (buf pb) \<le> pos pb)"

text \<open>Modelled from the spec: \<^verbatim>\<open>read(n)\<close> of the byte stream for one byte (\<^verbatim>\<open>get_byte\<close>,
  absent from the sources). At the end of the stream the byte read is 0 and the cursor
  stays.\<close>

definition get_byte :: "ByteIOContext \<Rightarrow> byte \<times> ByteIOContext" where
  "get_byte pb =
     (if pos pb < length (buf pb) then (buf pb ! pos pb, pb\<lparr>pos := pos pb + 1\<rparr>)
      else (0, pb))"

text \<open>Modelled from the spec: \<^verbatim>\<open>read(n)\<close> of the byte stream (\<^verbatim>\<open>get_buffer\<close>, absent from
  the sources): the next \<open>n\<close> bytes, fewer when the stream ends before.\<close>

definition get_buffer :: "ByteIOContext \<Rightarrow> nat \<Rightarrow> byte list \<times> ByteIOContext" where
  "get_buffer pb n =
     (let bs = take n (drop (pos pb) (buf pb)) in (bs, pb\<lparr>pos := pos pb + length bs\<rparr>))"

text \<open>Modelled from the spec: \<^verbatim>\<open>skip(n)\<close> of the byte stream (\<^verbatim>\<open>url_fskip\<close>, absent from
  the sources): the cursor moves by \<open>n\<close> bytes. The parameter is a signed 64-bit
  \<^verbatim>\<open>offset_t\<close>, so a negative \<open>n\<close> moves the cursor backwards; the spec gives a move to
  before the start of the stream no meaning, which is the value \<open>None\<close>.\<close>

definition url_fskip :: "ByteIOContext \<Rightarrow> int \<Rightarrow> ByteIOContext option" where
  "url_fskip pb n =
     (if int (pos pb) + n < 0 then None else Some (pb\<lparr>pos := nat (int (pos pb) + n)\<rparr>))"

section \<open>MXF: KLV framing\<close>

text \<open>
  \<^verbatim>\<open>klv_decode_ber_length\<close> (mxf.c, lines 175-192). The result is an \<^verbatim>\<open>int64_t\<close>, kept
  as its 64-bit pattern; \<open>sint\<close> reads the value the C function returns, and the
  failure value \<^verbatim>\<open>-1\<close> is the pattern of all ones. The loop
  \<^verbatim>\<open>while (bytes_num--) size = size << 8 | get_byte(pb)\<close> is \<open>ber_long_form\<close>
  (\<open>sz\<close> is the C variable \<^verbatim>\<open>size\<close>, \<open>len\<close> is \<^verbatim>\<open>length\<close>).
\<close>

fun ber_long_form :: "nat \<Rightarrow> 64 word \<Rightarrow> ByteIOContext \<Rightarrow> 64 word \<times> ByteIOContext" where
  "ber_long_form 0 sz pb = (sz, pb)"
| "ber_long_form (Suc bytes_num) sz pb =
     (let (b, pb') = get_byte pb
      in ber_long_form bytes_num (push_bit 8 sz OR ucast b) pb')"

definition klv_decode_ber_length :: "ByteIOContext \<Rightarrow> 64 word \<times> ByteIOContext" where
  "klv_decode_ber_length pb =
     (let (len, pb1) = get_byte pb;
          type = drop_bit 7 len
      in if type \<noteq> 0 then
           (let bytes_num = unat (len AND 0x7f)
            in if bytes_num > 8 then (- 1, pb1)
               else ber_long_form bytes_num 0 pb1)
         else (ucast (len AND 0x7f), pb1))"


text \<open>
  \<^verbatim>\<open>KLVPacket\<close> and \<^verbatim>\<open>klv_read_packet\<close> (mxf.c, lines 135-139 and 194-200). The key
  buffer is written by \<^verbatim>\<open>get_buffer\<close>: when fewer than 16 bytes are left, the rest of
  the buffer keeps what it held before the call.
\<close>

type_synonym UID = "byte list"

record KLVPacket =
  key :: UID
  offset :: int
  klv_length :: "64 word"

definition klv_read_packet :: "KLVPacket \<Rightarrow> ByteIOContext \<Rightarrow> int \<times> KLVPacket \<times> ByteIOContext" where
  "klv_read_packet klv pb =
     (let off = url_ftell pb;
          (bs, pb1) = get_buffer pb 16;
          (len, pb2) = klv_decode_ber_length pb1
      in (if len = - 1 then - 1 else 0,
          klv\<lparr>offset := off, key := bs @ drop (length bs) (key klv), klv_length := len\<rparr>,
          pb2))"

definition mxf_essence_element_key :: "byte list" where
  "mxf_essence_element_key =
     [0x06, 0x0e, 0x2b, 0x34, 0x01, 0x02, 0x01, 0x01, 0x0d, 0x01, 0x03, 0x01]"

text \<open>\<^verbatim>\<open>IS_KLV_KEY(x, y)\<close> is \<^verbatim>\<open>!memcmp(x, y, sizeof(y))\<close>.\<close>

definition IS_KLV_KEY :: "byte list \<Rightarrow> byte list \<Rightarrow> bool" where
  "IS_KLV_KEY x y = (take (length y) x = y)"

section \<open>MXF: the object graph\<close>

text \<open>
  The structs of mxf.c, lines 51-133. A pointer that may be \<^verbatim>\<open>NULL\<close> is an \<open>option\<close>;
  an array with its \<^verbatim>\<open>_count\<close> field is a list. The \<^verbatim>\<open>_refs\<close> arrays and the fields
  that \<^verbatim>\<open>mxf_parse_structural_metadata\<close> and \<^verbatim>\<open>mxf_get_stream_index\<close> do not read
  are left out.
\<close>

datatype MXFPackageType = MaterialPackage | SourcePackage

datatype MXFStructuralComponentType = Timecode | SourceClip

record AVRational =
  num :: int
  den :: int

record MXFStructuralComponent =
  source_package_uid :: UID
  component_duration :: int
  start_position :: int
  source_track_id :: int
  component_type :: MXFStructuralComponentType

record MXFSequence =
  data_definition_ul :: UID
  structural_components :: "MXFStructuralComponent option list"

record MXFTrack =
  sequence :: "MXFSequence option"
  track_id :: int
  track_number :: "byte list"
  edit_rate :: AVRational

datatype MXFDescriptor = MXFDescriptor
  (essence_codec_ul : UID)
  (sample_rate : AVRational)
  (width : int)
  (height : int)
  (channels : int)
  (bits_per_sample : int)
  (sub_descriptors : "MXFDescriptor option list")
  (linked_track_id : int)

record MXFPackage =
  package_uid :: UID
  tracks :: "MXFTrack option list"
  descriptor :: "MXFDescriptor option"
  package_type :: MXFPackageType

record MXFContext =
  packages :: "MXFPackage option list"

text \<open>
  The output streams. \<^verbatim>\<open>AVStream\<close>, \<^verbatim>\<open>AVCodecContext\<close>, \<^verbatim>\<open>enum CodecID\<close> and
  \<^verbatim>\<open>enum CodecType\<close> are declared outside the two files; the record holds the fields
  that mxf.c assigns and reads.
\<close>

datatype CodecType = CODEC_TYPE_UNKNOWN | CODEC_TYPE_VIDEO | CODEC_TYPE_AUDIO
  | CODEC_TYPE_DATA | CODEC_TYPE_SUBTITLE

datatype CodecID = CODEC_ID_NONE | CODEC_ID_MPEG2VIDEO | CODEC_ID_DVVIDEO
  | CODEC_ID_PCM_S16LE | CODEC_ID_PCM_S16BE | CODEC_ID_PCM_S24LE | CODEC_ID_PCM_S24BE
  | CODEC_ID_PCM_S32LE | CODEC_ID_PCM_S32BE

record AVStream =
  index :: nat
  stream_id :: int
  priv_data :: MXFTrack
  stream_duration :: int
  start_time :: int
  time_base :: AVRational
  codec_type :: CodecType
  codec_id :: CodecID
  codec_width :: int
  codec_height :: int
  codec_channels :: int
  codec_bits_per_sample :: int
  codec_sample_rate :: int

text \<open>Modelled from the spec: the value of an unknown duration (\<^verbatim>\<open>AV_NOPTS_VALUE\<close>, a
  constant declared outside the two files).\<close>

definition AV_NOPTS_VALUE :: int where
  "AV_NOPTS_VALUE = - (2 ^ 63)"

text \<open>Modelled from the spec: allocating an output stream (\<^verbatim>\<open>av_new_stream\<close>, absent from
  the sources): the new stream is appended to the streams of the format context, its
  index is its place there and its \<^verbatim>\<open>id\<close> is the one given; the other fields start
  empty.\<close>

definition av_new_stream :: "AVStream list \<Rightarrow> int \<Rightarrow> AVStream" where
  "av_new_stream streams i =
     \<lparr>index = length streams, stream_id = i,
      priv_data = \<lparr>sequence = None, track_id = 0, track_number = [], edit_rate = \<lparr>num = 0, den = 0\<rparr>\<rparr>,
      stream_duration = AV_NOPTS_VALUE, start_time = AV_NOPTS_VALUE,
      time_base = \<lparr>num = 0, den = 0\<rparr>,
      codec_type = CODEC_TYPE_UNKNOWN, codec_id = CODEC_ID_NONE,
      codec_width = 0, codec_height = 0, codec_channels = 0, codec_bits_per_sample = 0,
      codec_sample_rate = 0\<rparr>"

section \<open>MXF: the essence reader\<close>

text \<open>Modelled from the spec: the packet type (\<^verbatim>\<open>AVPacket\<close>, declared outside the two
  files) with the fields the two files use: \<^verbatim>\<open>data\<close>, \<^verbatim>\<open>stream_index\<close>, \<^verbatim>\<open>pts\<close>
  (an \<^verbatim>\<open>int64_t\<close>, kept as its 64-bit pattern), \<^verbatim>\<open>duration\<close> and the keyframe flag.
  \<^verbatim>\<open>pkt->size\<close> is the length of \<open>data\<close>.\<close>

record AVPacket =
  data :: "byte list"
  stream_index :: int
  pts :: "64 word"
  pkt_duration :: int
  is_keyframe :: bool

text \<open>Modelled from the spec: reading \<open>n\<close> bytes into a packet (\<^verbatim>\<open>av_get_packet\<close>, absent
  from the sources). The size parameter of the packet interface is an \<^verbatim>\<open>int\<close>, as the
  \<^verbatim>\<open>pkt->size\<close> that matroskaenc.c reads. A packet of negative size cannot be allocated:
  the call fails, and the packet and the stream are left as they were.\<close>

definition av_get_packet :: "ByteIOContext \<Rightarrow> AVPacket \<Rightarrow> int \<Rightarrow> AVPacket \<times> ByteIOContext" where
  "av_get_packet pb pkt n =
     (if n < 0 then (pkt, pb)
      else (let (bs, pb') = get_buffer pb (nat n) in (pkt\<lparr>data := bs\<rparr>, pb')))"

text \<open>\<^verbatim>\<open>mxf_get_stream_index\<close> (mxf.c, lines 202-213): the loop over \<^verbatim>\<open>s->streams\<close>, from
  index \<open>i\<close> on. \<^verbatim>\<open>memcmp\<close> compares the 4 bytes after the first 12 of the key with the
  4 bytes of \<^verbatim>\<open>track_number\<close>.\<close>

fun mxf_get_stream_index_from :: "nat \<Rightarrow> AVStream list \<Rightarrow> KLVPacket \<Rightarrow> int" where
  "mxf_get_stream_index_from i [] klv = - 1"
| "mxf_get_stream_index_from i (st # sts) klv =
     (if take 4 (drop (length mxf_essence_element_key) (key klv))
           = take 4 (track_number (priv_data st))
      then int i
      else mxf_get_stream_index_from (Suc i) sts klv)"

definition mxf_get_stream_index :: "AVStream list \<Rightarrow> KLVPacket \<Rightarrow> int" where
  "mxf_get_stream_index s klv = mxf_get_stream_index_from 0 s klv"

text \<open>
  \<^verbatim>\<open>mxf_read_packet\<close> (mxf.c, lines 215-232). The result is the returned \<^verbatim>\<open>int\<close>, the
  local \<^verbatim>\<open>klv\<close>, the packet and the stream. \<^verbatim>\<open>AVERROR_IO\<close> is a negative constant
  declared outside the two files and is taken as a parameter. The first argument
  \<open>klv\<close> is what the uninitialised local variable holds on entry.

  \<^verbatim>\<open>klv.length\<close> is a \<^verbatim>\<open>uint64_t\<close>. Line 225 passes it as the \<^verbatim>\<open>int\<close> size of
  \<^verbatim>\<open>av_get_packet\<close>, which keeps its low 32 bits, read as a signed number; line 229
  passes it as the signed 64-bit offset of \<^verbatim>\<open>url_fskip\<close>. A length from \<open>2^63\<close> on is a
  negative offset and moves the cursor backwards, possibly to a KLV that has been
  read before, so the loop need not end: the result \<open>None\<close> says that the call does not
  return, or has moved the cursor to before the start of the stream.
\<close>

partial_function (option) mxf_read_packet ::
  "int \<Rightarrow> AVStream list \<Rightarrow> KLVPacket \<Rightarrow> AVPacket \<Rightarrow> ByteIOContext
     \<Rightarrow> (int \<times> KLVPacket \<times> AVPacket \<times> ByteIOContext) option" where
  "mxf_read_packet AVERROR_IO s klv pkt pb =
     (if \<not> url_feof pb then
        (case klv_read_packet klv pb of (r, klv', pb') \<Rightarrow>
           if r < 0 then Some (- 1, klv', pkt, pb')
           else if IS_KLV_KEY (key klv') mxf_essence_element_key then
             (let (pkt1, pb'') = av_get_packet pb' pkt (sint (ucast (klv_length klv') :: 32 word));
                  pkt2 = pkt1\<lparr>stream_index := mxf_get_stream_index s klv'\<rparr>
              in Some (if stream_index pkt2 = - 1 then - 1 else 0, klv', pkt2, pb''))
           else
             (case url_fskip pb' (sint (klv_length klv')) of
                None \<Rightarrow> None
              | Some pb'' \<Rightarrow> mxf_read_packet AVERROR_IO s klv' pkt pb''))
      else Some (AVERROR_IO, klv, pkt, pb))"

declare mxf_read_packet.simps [simp del]




section \<open>MXF: the structural linker\<close>

text \<open>
  \<^verbatim>\<open>mxf_parse_structural_metadata\<close> (mxf.c, lines 688-805) follows pointers without
  testing them, divides by a denominator read from the file, and walks
  \<^verbatim>\<open>mxf_codec_uls\<close> until an entry with \<^verbatim>\<open>CODEC_ID_NONE\<close>, which the table
  (lines 663-676) does not have. Each is a fault of the model rather than a value.
\<close>

datatype mxf_fault = Null_Dereference | Division_Fault | Table_Overrun

definition picture_essence_track_ul :: UID where
  "picture_essence_track_ul =
     [0x06, 0x0E, 0x2B, 0x34, 0x04, 0x01, 0x01, 0x01, 0x01, 0x03, 0x02, 0x02, 0x01, 0x00, 0x00, 0x00]"

definition sound_essence_track_ul :: UID where
  "sound_essence_track_ul =
     [0x06, 0x0E, 0x2B, 0x34, 0x04, 0x01, 0x01, 0x01, 0x01, 0x03, 0x02, 0x02, 0x02, 0x00, 0x00, 0x00]"

definition mxf_codec_uls :: "(UID \<times> CodecID) list" where
  "mxf_codec_uls =
    [([0x06, 0x0E, 0x2B, 0x34, 0x04, 0x01, 0x01, 0x03, 0x04, 0x01, 0x02, 0x02, 0x01, 0x02, 0x02, 0x00], CODEC_ID_MPEG2VIDEO),
     ([0x06, 0x0E, 0x2B, 0x34, 0x04, 0x01, 0x01, 0x03, 0x04, 0x01, 0x02, 0x02, 0x01, 0x04, 0x03, 0x00], CODEC_ID_MPEG2VIDEO),
     ([0x06, 0x0E, 0x2B, 0x34, 0x04, 0x01, 0x01, 0x03, 0x04, 0x01, 0x02, 0x02, 0x01, 0x02, 0x03, 0x00], CODEC_ID_MPEG2VIDEO),
     ([0x06, 0x0E, 0x2B, 0x34, 0x04, 0x01, 0x01, 0x01, 0x04, 0x01, 0x02, 0x02, 0x01, 0x02, 0x01, 0x05], CODEC_ID_MPEG2VIDEO),
     ([0x06, 0x0E, 0x2B, 0x34, 0x04, 0x01, 0x01, 0x01, 0x04, 0x01, 0x02, 0x02, 0x01, 0x02, 0x01, 0x01], CODEC_ID_MPEG2VIDEO),
     ([0x06, 0x0E, 0x2B, 0x34, 0x04, 0x01, 0x01, 0x01, 0x04, 0x01, 0x02, 0x02, 0x02, 0x02, 0x04, 0x00], CODEC_ID_DVVIDEO),
     ([0x06, 0x0E, 0x2B, 0x34, 0x04, 0x01, 0x01, 0x01, 0x04, 0x01, 0x02, 0x02, 0x02, 0x02, 0x02, 0x00], CODEC_ID_DVVIDEO),
     ([0x06, 0x0E, 0x2B, 0x34, 0x04, 0x01, 0x01, 0x01, 0x04, 0x01, 0x02, 0x02, 0x02, 0x01, 0x02, 0x00], CODEC_ID_DVVIDEO),
     ([0x06, 0x0E, 0x2B, 0x34, 0x04, 0x01, 0x01, 0x01, 0x04, 0x02, 0x02, 0x01, 0x7F, 0x00, 0x00, 0x00], CODEC_ID_PCM_S16LE),
     ([0x06, 0x0E, 0x2B, 0x34, 0x04, 0x01, 0x01, 0x07, 0x04, 0x02, 0x02, 0x01, 0x7E, 0x00, 0x00, 0x00], CODEC_ID_PCM_S16BE)]"

text \<open>\<^verbatim>\<open>mxf_get_codec_id\<close> (lines 678-686); \<open>[]\<close> is the memory after the last entry.\<close>

fun mxf_get_codec_id :: "(UID \<times> CodecID) list \<Rightarrow> UID \<Rightarrow> mxf_fault + CodecID" where
  "mxf_get_codec_id [] uid = Inl Table_Overrun"
| "mxf_get_codec_id ((u, i) # uls) uid =
     (if i = CODEC_ID_NONE then Inr CODEC_ID_NONE
      else if take 16 u = take 16 uid then Inr i
      else mxf_get_codec_id uls uid)"

text \<open>Lines 695-700: the first package whose type is \<^verbatim>\<open>MaterialPackage\<close>.\<close>

fun find_material_package :: "MXFPackage option list \<Rightarrow> mxf_fault + MXFPackage option" where
  "find_material_package [] = Inr None"
| "find_material_package (None # ps) = Inl Null_Dereference"
| "find_material_package (Some p # ps) =
     (if package_type p = MaterialPackage then Inr (Some p) else find_material_package ps)"

text \<open>Lines 720-725: \<^verbatim>\<open>source_package\<close> is assigned at the first package whose
  \<^verbatim>\<open>package_uid\<close> equals the clip's \<^verbatim>\<open>source_package_uid\<close>, and keeps its value when
  there is none.\<close>

fun find_source_package ::
  "MXFPackage option list \<Rightarrow> MXFStructuralComponent \<Rightarrow> MXFPackage option
     \<Rightarrow> mxf_fault + MXFPackage option" where
  "find_source_package [] component source_package = Inr source_package"
| "find_source_package (None # ps) component source_package = Inl Null_Dereference"
| "find_source_package (Some p # ps) component source_package =
     (if take 16 (package_uid p) = take 16 (source_package_uid component) then Inr (Some p)
      else find_source_package ps component source_package)"

text \<open>Lines 730-735: \<^verbatim>\<open>source_track\<close> is assigned at the first track of the source
  package whose \<^verbatim>\<open>track_id\<close> is the clip's \<^verbatim>\<open>source_track_id\<close>.\<close>

fun find_source_track ::
  "MXFTrack option list \<Rightarrow> MXFStructuralComponent \<Rightarrow> MXFTrack option
     \<Rightarrow> mxf_fault + MXFTrack option" where
  "find_source_track [] component source_track = Inr source_track"
| "find_source_track (None # ts) component source_track = Inl Null_Dereference"
| "find_source_track (Some t # ts) component source_track =
     (if track_id t = source_track_id component then Inr (Some t)
      else find_source_track ts component source_track)"

text \<open>Lines 714-740: the loop over the components of one material track. The state is
  the three variables \<^verbatim>\<open>component\<close>, \<^verbatim>\<open>source_package\<close> and \<^verbatim>\<open>source_track\<close>;
  returning without a recursive call is the \<^verbatim>\<open>break\<close>.\<close>

fun components_loop ::
  "MXFContext \<Rightarrow> MXFStructuralComponent option list
     \<Rightarrow> MXFStructuralComponent option \<times> MXFPackage option \<times> MXFTrack option
     \<Rightarrow> mxf_fault + (MXFStructuralComponent option \<times> MXFPackage option \<times> MXFTrack option)" where
  "components_loop mxf [] st = Inr st"
| "components_loop mxf (None # cs) (component, source_package, source_track) =
     components_loop mxf cs (None, source_package, source_track)"
| "components_loop mxf (Some c # cs) (component, source_package, source_track) =
     (if component_type c \<noteq> SourceClip
      then components_loop mxf cs (Some c, source_package, source_track)
      else
        (case find_source_package (packages mxf) c source_package of
           Inl f \<Rightarrow> Inl f
         | Inr None \<Rightarrow> Inr (Some c, None, source_track)
         | Inr (Some sp) \<Rightarrow>
             (case find_source_track (tracks sp) c source_track of
                Inl f \<Rightarrow> Inl f
              | Inr None \<Rightarrow> Inr (Some c, Some sp, None)
              | Inr (Some t) \<Rightarrow> components_loop mxf cs (Some c, Some sp, Some t))))"

text \<open>Lines 761-774: the descriptor of the stream.\<close>

fun find_sub_descriptor :: "MXFDescriptor option list \<Rightarrow> int \<Rightarrow> MXFDescriptor option" where
  "find_sub_descriptor [] tid = None"
| "find_sub_descriptor (None # ds) tid = find_sub_descriptor ds tid"
| "find_sub_descriptor (Some d # ds) tid =
     (if linked_track_id d = tid then Some d else find_sub_descriptor ds tid)"

definition select_descriptor :: "MXFPackage \<Rightarrow> MXFTrack \<Rightarrow> MXFDescriptor option" where
  "select_descriptor source_package source_track =
     (case descriptor source_package of
        None \<Rightarrow> None
      | Some d \<Rightarrow>
          if length (sub_descriptors d) > 0
          then find_sub_descriptor (sub_descriptors d) (track_id source_track)
          else Some d)"

text \<open>Lines 782-802: the codec parameters taken from the descriptor. The division is
  C's, on \<^verbatim>\<open>int\<close>.\<close>

definition set_codec_parameters :: "AVStream \<Rightarrow> MXFDescriptor \<Rightarrow> mxf_fault + AVStream" where
  "set_codec_parameters st d =
     (case mxf_get_codec_id mxf_codec_uls (essence_codec_ul d) of
        Inl f \<Rightarrow> Inl f
      | Inr cid \<Rightarrow>
          (let st1 = st\<lparr>codec_id := cid\<rparr>
           in if codec_type st1 = CODEC_TYPE_VIDEO
              then Inr (st1\<lparr>codec_width := width d, codec_height := height d\<rparr>)
              else if codec_type st1 = CODEC_TYPE_AUDIO
              then
                (if den (sample_rate d) = 0
                    \<or> (num (sample_rate d) = - (2 ^ 31) \<and> den (sample_rate d) = - 1)
                 then Inl Division_Fault
                 else
                   (let st2 = st1\<lparr>codec_channels := channels d,
                                  codec_bits_per_sample := bits_per_sample d,
                                  codec_sample_rate := num (sample_rate d) sdiv den (sample_rate d)\<rparr>
                    in Inr
                      (if codec_id st2 = CODEC_ID_PCM_S16LE then
                         (if bits_per_sample d = 24 then st2\<lparr>codec_id := CODEC_ID_PCM_S24LE\<rparr>
                          else if bits_per_sample d = 32 then st2\<lparr>codec_id := CODEC_ID_PCM_S32LE\<rparr>
                          else st2)
                       else if codec_id st2 = CODEC_ID_PCM_S16BE then
                         (if bits_per_sample d = 24 then st2\<lparr>codec_id := CODEC_ID_PCM_S24BE\<rparr>
                          else if bits_per_sample d = 32 then st2\<lparr>codec_id := CODEC_ID_PCM_S32BE\<rparr>
                          else st2)
                       else st2)))
              else Inr st1))"

text \<open>Lines 744-802: the stream of one material track whose \<^verbatim>\<open>source_track\<close> is set.
  Setting the time base is \<^verbatim>\<open>av_set_pts_info\<close>, absent from the sources and modelled
  from the spec: the time base is the edit rate of the material track.\<close>

definition new_track_stream ::
  "AVStream list \<Rightarrow> MXFTrack \<Rightarrow> MXFStructuralComponent option \<Rightarrow> MXFPackage option \<Rightarrow> MXFTrack
     \<Rightarrow> mxf_fault + AVStream" where
  "new_track_stream streams material_track component source_package source_track =
     (case component of
        None \<Rightarrow> Inl Null_Dereference
      | Some c \<Rightarrow>
          (let st0 = av_new_stream streams (track_id source_track);
               st1 = st0\<lparr>priv_data := source_track,
                         stream_duration := (if component_duration c = - 1 then AV_NOPTS_VALUE
                                      else component_duration c),
                         start_time := start_position c,
                         time_base := \<lparr>num = num (edit_rate material_track),
                                       den = den (edit_rate material_track)\<rparr>\<rparr>
           in case sequence source_track of
                None \<Rightarrow> Inl Null_Dereference
              | Some sq \<Rightarrow>
                  (let st2 = st1\<lparr>codec_type :=
                         (if take 16 (data_definition_ul sq) = take 16 picture_essence_track_ul
                          then CODEC_TYPE_VIDEO
                          else if take 16 (data_definition_ul sq) = take 16 sound_essence_track_ul
                          then CODEC_TYPE_AUDIO
                          else CODEC_TYPE_DATA)\<rparr>
                   in case source_package of
                        None \<Rightarrow> Inl Null_Dereference
                      | Some sp \<Rightarrow>
                          (case select_descriptor sp source_track of
                             None \<Rightarrow> Inr st2
                           | Some d \<Rightarrow> set_codec_parameters st2 d))))"

text \<open>Lines 706-803: the loop over the tracks of the material package.
  \<^verbatim>\<open>source_package\<close> is declared outside the loop (line 691) and is carried from one
  track to the next; \<^verbatim>\<open>source_track\<close> and \<^verbatim>\<open>component\<close> start at \<^verbatim>\<open>NULL\<close> for each
  track.\<close>

fun tracks_loop ::
  "MXFContext \<Rightarrow> MXFTrack option list \<Rightarrow> MXFPackage option \<Rightarrow> AVStream list
     \<Rightarrow> mxf_fault + AVStream list" where
  "tracks_loop mxf [] source_package streams = Inr streams"
| "tracks_loop mxf (None # mts) source_package streams = Inl Null_Dereference"
| "tracks_loop mxf (Some material_track # mts) source_package streams =
     (case sequence material_track of
        None \<Rightarrow> Inl Null_Dereference
      | Some sq \<Rightarrow>
          (case components_loop mxf (structural_components sq) (None, source_package, None) of
             Inl f \<Rightarrow> Inl f
           | Inr (component, source_package', None) \<Rightarrow>
               tracks_loop mxf mts source_package' streams
           | Inr (component, source_package', Some source_track) \<Rightarrow>
               (case new_track_stream streams material_track component source_package' source_track of
                  Inl f \<Rightarrow> Inl f
                | Inr st \<Rightarrow> tracks_loop mxf mts source_package' (streams @ [st]))))"

text \<open>The function: the returned \<^verbatim>\<open>int\<close> and the streams of the format context.\<close>

definition mxf_parse_structural_metadata :: "MXFContext \<Rightarrow> mxf_fault + (int \<times> AVStream list)" where
  "mxf_parse_structural_metadata mxf =
     (case find_material_package (packages mxf) of
        Inl f \<Rightarrow> Inl f
      | Inr None \<Rightarrow> Inr (- 1, [])
      | Inr (Some material_package) \<Rightarrow>
          (case tracks_loop mxf (tracks material_package) None [] of
             Inl f \<Rightarrow> Inl f
           | Inr streams \<Rightarrow> Inr (0, streams)))"


section \<open>Matroska: the EBML primitive layer\<close>

text \<open>
  The writers of matroskaenc.c call \<^verbatim>\<open>put_byte\<close>, \<^verbatim>\<open>put_buffer\<close>, \<^verbatim>\<open>put_be16\<close>,
  \<^verbatim>\<open>put_be64\<close> and \<^verbatim>\<open>url_fseek\<close> of the byte stream. A function of the file that can
  shift a value by its width or more, or seek to a negative offset, returns an
  \<open>option\<close>: \<open>None\<close> says that C gives the call no meaning.
\<close>

text \<open>Modelled from the spec: \<^verbatim>\<open>write(bytes)\<close> of the byte stream (\<^verbatim>\<open>put_buffer\<close>, absent
  from the sources): the bytes replace what the file holds from the cursor on, the file
  grows as needed, the bytes outside the written region stay, and the cursor moves
  behind them. A gap between the end of the file and the cursor reads as zero; a write
  of no bytes changes nothing.\<close>

definition put_buffer :: "ByteIOContext \<Rightarrow> byte list \<Rightarrow> ByteIOContext" where
  "put_buffer pb bs =
     (if bs = [] then pb
      else
        (let b = buf pb @ replicate (pos pb - length (buf pb)) 0
         in pb\<lparr>buf := take (pos pb) b @ bs @ drop (pos pb + length bs) b,
                pos := pos pb + length bs\<rparr>))"

text \<open>Modelled from the spec: \<^verbatim>\<open>write\<close> of one byte (\<^verbatim>\<open>put_byte\<close>), of a 16-bit and of a
  64-bit big-endian value (\<^verbatim>\<open>put_be16\<close>, \<^verbatim>\<open>put_be64\<close>), absent from the sources.\<close>

definition put_byte :: "ByteIOContext \<Rightarrow> byte \<Rightarrow> ByteIOContext" where
  "put_byte pb b = put_buffer pb [b]"

definition put_be16 :: "ByteIOContext \<Rightarrow> 16 word \<Rightarrow> ByteIOContext" where
  "put_be16 pb v = put_byte (put_byte pb (ucast (drop_bit 8 v))) (ucast v)"

definition put_be64 :: "ByteIOContext \<Rightarrow> 64 word \<Rightarrow> ByteIOContext" where
  "put_be64 pb v =
     put_buffer pb (map (\<lambda>i. ucast (drop_bit (8 * i) v)) [7, 6, 5, 4, 3, 2, 1, 0])"

text \<open>Modelled from the spec: \<^verbatim>\<open>seek(offset, SEEK_SET)\<close> of the byte stream
  (\<^verbatim>\<open>url_fseek\<close>, absent from the sources). The spec gives a seek to a negative offset
  no meaning.\<close>

definition url_fseek :: "ByteIOContext \<Rightarrow> int \<Rightarrow> ByteIOContext option" where
  "url_fseek pb off = (if off < 0 then None else Some (pb\<lparr>pos := nat off\<rparr>))"

text \<open>Modelled from the spec: \<open>\<lfloor>log2 v\<rfloor>\<close> (\<^verbatim>\<open>av_log2\<close>, absent from the sources), 0 at
  \<open>v = 0\<close>.\<close>

function log2_floor :: "int \<Rightarrow> int" where
  "log2_floor n = (if n < 2 then 0 else 1 + log2_floor (n div 2))"
  by pat_completeness auto
termination
  by (relation "measure nat") auto

declare log2_floor.simps [simp del]

definition av_log2 :: "32 word \<Rightarrow> int" where
  "av_log2 v = log2_floor (uint v)"

text \<open>\<^verbatim>\<open>ebml_id_size\<close> (matroskaenc.c, lines 70-73); the division is C's, which truncates
  towards zero.\<close>

definition ebml_id_size :: "32 word \<Rightarrow> int" where
  "ebml_id_size eid = (av_log2 (eid + 1) - 1) sdiv 7 + 1"

text \<open>\<^verbatim>\<open>put_ebml_id\<close> (lines 75-80): \<^verbatim>\<open>while (i--) put_byte(pb, id >> (i*8))\<close>, on a 32-bit
  \<^verbatim>\<open>unsigned int\<close> (\<open>eid\<close> is the C parameter \<^verbatim>\<open>id\<close>).\<close>

fun put_ebml_id_loop :: "nat \<Rightarrow> ByteIOContext \<Rightarrow> 32 word \<Rightarrow> ByteIOContext option" where
  "put_ebml_id_loop 0 pb eid = Some pb"
| "put_ebml_id_loop (Suc i) pb eid =
     (if 32 \<le> i * 8 then None
      else put_ebml_id_loop i (put_byte pb (ucast (drop_bit (i * 8) eid))) eid)"

definition put_ebml_id :: "ByteIOContext \<Rightarrow> 32 word \<Rightarrow> ByteIOContext option" where
  "put_ebml_id pb eid = put_ebml_id_loop (nat (ebml_id_size eid)) pb eid"

text \<open>The loop \<^verbatim>\<open>for (i = bytes - 1; i >= 0; i--) put_byte(pb, value >> i*8)\<close> on a
  \<^verbatim>\<open>uint64_t\<close>, which closes \<^verbatim>\<open>put_ebml_size_unknown\<close>, \<^verbatim>\<open>put_ebml_size\<close> and
  \<^verbatim>\<open>put_ebml_uint\<close>.\<close>

fun put_bytes_be :: "nat \<Rightarrow> ByteIOContext \<Rightarrow> 64 word \<Rightarrow> ByteIOContext option" where
  "put_bytes_be 0 pb v = Some pb"
| "put_bytes_be (Suc i) pb v =
     (if 64 \<le> i * 8 then None
      else put_bytes_be i (put_byte pb (ucast (drop_bit (i * 8) v))) v)"

text \<open>\<^verbatim>\<open>put_ebml_size_unknown\<close> (lines 87-97). The first loop sets the bits
  \<open>0 .. bytes*7\<close> of \<^verbatim>\<open>value\<close>.\<close>

definition put_ebml_size_unknown :: "ByteIOContext \<Rightarrow> int \<Rightarrow> ByteIOContext option" where
  "put_ebml_size_unknown pb bytes =
     (let bytes' = min bytes 8;
          v = mask (nat (bytes' * 7 + 1))
      in put_bytes_be (nat bytes') pb v)"

text \<open>\<^verbatim>\<open>ebml_size_bytes\<close> (lines 102-107):
  \<^verbatim>\<open>while ((size+1) >> bytes*7) bytes++\<close>, from \<^verbatim>\<open>bytes = 1\<close>.\<close>

function ebml_size_bytes_loop :: "64 word \<Rightarrow> nat \<Rightarrow> nat option" where
  "ebml_size_bytes_loop sz bytes =
     (if 64 \<le> bytes * 7 then None
      else if drop_bit (bytes * 7) (sz + 1) \<noteq> 0 then ebml_size_bytes_loop sz (Suc bytes)
      else Some bytes)"
  by pat_completeness auto
termination
  by (relation "measure (\<lambda>(sz, bytes). 10 - bytes)") auto

declare ebml_size_bytes_loop.simps [simp del]

definition ebml_size_bytes :: "64 word \<Rightarrow> nat option" where
  "ebml_size_bytes sz = ebml_size_bytes_loop sz 1"

text \<open>\<^verbatim>\<open>put_ebml_size\<close> (lines 111-125). \<^verbatim>\<open>ebml_size_bytes\<close> is called in the
  declaration of \<^verbatim>\<open>bytes\<close>, before the test for the unknown size.\<close>

definition put_ebml_size :: "ByteIOContext \<Rightarrow> 64 word \<Rightarrow> int \<Rightarrow> ByteIOContext option" where
  "put_ebml_size pb sz minbytes =
     do {
       n \<leftarrow> ebml_size_bytes sz;
       let bytes = max minbytes (int n);
       if sz \<ge> 2 ^ 56 - 1 then put_ebml_size_unknown pb 1
       else if 64 \<le> bytes * 7 then None
       else put_bytes_be (nat bytes) pb (sz OR push_bit (nat (bytes * 7)) 1)
     }"

text \<open>\<^verbatim>\<open>put_ebml_uint\<close> (lines 127-136): \<^verbatim>\<open>while (val >> bytes*8) bytes++\<close>, from
  \<^verbatim>\<open>bytes = 1\<close>.\<close>

function ebml_uint_bytes_loop :: "64 word \<Rightarrow> nat \<Rightarrow> nat option" where
  "ebml_uint_bytes_loop val bytes =
     (if 64 \<le> bytes * 8 then None
      else if drop_bit (bytes * 8) val \<noteq> 0 then ebml_uint_bytes_loop val (Suc bytes)
      else Some bytes)"
  by pat_completeness auto
termination
  by (relation "measure (\<lambda>(val, bytes). 8 - bytes)") auto

declare ebml_uint_bytes_loop.simps [simp del]

definition put_ebml_uint :: "ByteIOContext \<Rightarrow> 32 word \<Rightarrow> 64 word \<Rightarrow> ByteIOContext option" where
  "put_ebml_uint pb elementid val =
     do {
       bytes \<leftarrow> ebml_uint_bytes_loop val 1;
       pb1 \<leftarrow> put_ebml_id pb elementid;
       pb2 \<leftarrow> put_ebml_size pb1 (of_nat bytes) 0;
       put_bytes_be bytes pb2 val
     }"

text \<open>\<^verbatim>\<open>put_ebml_float\<close> (lines 138-143). \<^verbatim>\<open>av_dbl2int\<close>, the bits of a \<^verbatim>\<open>double\<close>, is
  absent from the sources and is the parameter \<open>av_dbl2int\<close>; the type \<open>'d\<close> stands for
  \<^verbatim>\<open>double\<close>.\<close>

definition put_ebml_float ::
  "('d \<Rightarrow> 64 word) \<Rightarrow> ByteIOContext \<Rightarrow> 32 word \<Rightarrow> 'd \<Rightarrow> ByteIOContext option" where
  "put_ebml_float av_dbl2int pb elementid val =
     do {
       pb1 \<leftarrow> put_ebml_id pb elementid;
       pb2 \<leftarrow> put_ebml_size pb1 8 0;
       Some (put_be64 pb2 (av_dbl2int val))
     }"

text \<open>\<^verbatim>\<open>put_ebml_binary\<close> (lines 145-151); \<^verbatim>\<open>size\<close> is the length of \<open>bs\<close>.\<close>

definition put_ebml_binary :: "ByteIOContext \<Rightarrow> 32 word \<Rightarrow> byte list \<Rightarrow> ByteIOContext option" where
  "put_ebml_binary pb elementid bs =
     do {
       pb1 \<leftarrow> put_ebml_id pb elementid;
       pb2 \<leftarrow> put_ebml_size pb1 (of_nat (length bs)) 0;
       Some (put_buffer pb2 bs)
     }"

text \<open>
  The element identifiers are macros of \<^verbatim>\<open>matroska.h\<close>, which is not among the sources.
  They are parameters of the model: a record with one field for each macro the modelled
  functions use.
\<close>

record matroska_ids =
  EBML_ID_VOID :: "32 word"
  MATROSKA_ID_SEEKHEAD :: "32 word"
  MATROSKA_ID_SEEKENTRY :: "32 word"
  MATROSKA_ID_SEEKID :: "32 word"
  MATROSKA_ID_SEEKPOSITION :: "32 word"
  MATROSKA_ID_CUES :: "32 word"
  MATROSKA_ID_POINTENTRY :: "32 word"
  MATROSKA_ID_CUETIME :: "32 word"
  MATROSKA_ID_CUETRACKPOSITION :: "32 word"
  MATROSKA_ID_CUETRACK :: "32 word"
  MATROSKA_ID_CUECLUSTERPOSITION :: "32 word"
  MATROSKA_ID_CLUSTER :: "32 word"
  MATROSKA_ID_CLUSTERTIMECODE :: "32 word"
  MATROSKA_ID_SIMPLEBLOCK :: "32 word"
  MATROSKA_ID_BLOCKGROUP :: "32 word"
  MATROSKA_ID_BLOCK :: "32 word"
  MATROSKA_ID_DURATION :: "32 word"
  MATROSKA_ID_SEGMENTUID :: "32 word"

text \<open>\<^verbatim>\<open>put_ebml_void\<close> (lines 164-179). \<^verbatim>\<open>currentpos + size\<close> is computed in
  \<^verbatim>\<open>uint64_t\<close> and passed as an \<^verbatim>\<open>offset_t\<close>.\<close>

definition put_ebml_void :: "matroska_ids \<Rightarrow> ByteIOContext \<Rightarrow> 64 word \<Rightarrow> ByteIOContext option" where
  "put_ebml_void ids pb sz =
     (let currentpos = url_ftell pb
      in if sz < 2 then Some pb
         else do {
           pb1 \<leftarrow> put_ebml_id pb (EBML_ID_VOID ids);
           pb2 \<leftarrow> (if sz < 10 then put_ebml_size pb1 (sz - 1) 0
                   else put_ebml_size pb1 (sz - 9) 8);
           url_fseek pb2 (sint (word_of_int currentpos + sz))
         })"

text \<open>\<^verbatim>\<open>start_ebml_master\<close> and \<^verbatim>\<open>end_ebml_master\<close> (lines 181-197).\<close>

definition start_ebml_master :: "ByteIOContext \<Rightarrow> 32 word \<Rightarrow> (ByteIOContext \<times> int) option" where
  "start_ebml_master pb elementid =
     do {
       pb1 \<leftarrow> put_ebml_id pb elementid;
       pb2 \<leftarrow> put_ebml_size_unknown pb1 8;
       Some (pb2, url_ftell pb2)
     }"

definition end_ebml_master :: "ByteIOContext \<Rightarrow> int \<Rightarrow> ByteIOContext option" where
  "end_ebml_master pb start =
     (let p = url_ftell pb
      in do {
           pb1 \<leftarrow> url_fseek pb (start - 8);
           pb2 \<leftarrow> put_ebml_size pb1 (word_of_int (p - start)) 8;
           url_fseek pb2 p
         })"


section \<open>Matroska: SeekHead and Cues\<close>

text \<open>
  The structs of matroskaenc.c, lines 28-52; \<^verbatim>\<open>num_entries\<close> is the length of the
  list of entries. The allocator (\<^verbatim>\<open>av_mallocz\<close>, \<^verbatim>\<open>av_realloc\<close>) is outside the two
  files: a function that allocates takes a flag that says whether the request is granted.
\<close>

record mkv_seekhead_entry =
  elementid :: "32 word"
  segmentpos :: "64 word"

record mkv_seekhead =
  filepos :: int
  sh_segment_offset :: int
  reserved_size :: int
  max_entries :: int
  sh_entries :: "mkv_seekhead_entry list"

record mkv_cuepoint =
  cue_pts :: "64 word"
  tracknum :: int
  cue_cluster_pos :: int

record mkv_cues =
  cues_segment_offset :: int
  cues_entries :: "mkv_cuepoint list"

text \<open>\<^verbatim>\<open>mkv_start_seekhead\<close> (lines 216-234). The result \<open>None\<close> in the first component is
  the \<^verbatim>\<open>NULL\<close> returned when the allocation fails. \<^verbatim>\<open>numelements * 28 + 13\<close> is
  computed in \<^verbatim>\<open>int\<close>.\<close>

definition mkv_start_seekhead ::
  "matroska_ids \<Rightarrow> bool \<Rightarrow> ByteIOContext \<Rightarrow> int \<Rightarrow> int
     \<Rightarrow> (mkv_seekhead option \<times> ByteIOContext) option" where
  "mkv_start_seekhead ids av_mallocz_ok pb segment_offset numelements =
     (if \<not> av_mallocz_ok then Some (None, pb)
      else
        (let new_seekhead = \<lparr>filepos = 0, sh_segment_offset = segment_offset, reserved_size = 0,
                              max_entries = 0, sh_entries = []\<rparr>
         in if numelements > 0 then
              (if 2 ^ 31 \<le> numelements * 28 + 13 then None
               else do {
                 let sh = new_seekhead\<lparr>filepos := url_ftell pb,
                                       reserved_size := numelements * 28 + 13,
                                       max_entries := numelements\<rparr>;
                 pb' \<leftarrow> put_ebml_void ids pb (word_of_int (reserved_size sh));
                 Some (Some sh, pb')
               })
            else Some (Some new_seekhead, pb)))"

text \<open>\<^verbatim>\<open>mkv_add_seekhead_entry\<close> (lines 236-256).\<close>

definition mkv_add_seekhead_entry ::
  "bool \<Rightarrow> mkv_seekhead \<Rightarrow> 32 word \<Rightarrow> 64 word \<Rightarrow> int \<times> mkv_seekhead" where
  "mkv_add_seekhead_entry av_realloc_ok seekhead eid fpos =
     (if max_entries seekhead > 0 \<and> max_entries seekhead \<le> int (length (sh_entries seekhead))
      then (- 1, seekhead)
      else if \<not> av_realloc_ok then (- 1, seekhead)
      else (0, seekhead\<lparr>sh_entries := sh_entries seekhead @
              [\<lparr>elementid = eid,
                segmentpos = fpos - word_of_int (sh_segment_offset seekhead)\<rparr>]\<rparr>))"

text \<open>\<^verbatim>\<open>mkv_write_seekhead\<close> (lines 265-301): first the loop over the entries
  (lines 276-287), then the function.\<close>

fun seekhead_entries_loop ::
  "matroska_ids \<Rightarrow> ByteIOContext \<Rightarrow> mkv_seekhead_entry list \<Rightarrow> ByteIOContext option" where
  "seekhead_entries_loop ids pb [] = Some pb"
| "seekhead_entries_loop ids pb (entry # es) =
     do {
       (pb1, seekentry) \<leftarrow> start_ebml_master pb (MATROSKA_ID_SEEKENTRY ids);
       pb2 \<leftarrow> put_ebml_id pb1 (MATROSKA_ID_SEEKID ids);
       pb3 \<leftarrow> put_ebml_size pb2 (word_of_int (ebml_id_size (elementid entry))) 0;
       pb4 \<leftarrow> put_ebml_id pb3 (elementid entry);
       pb5 \<leftarrow> put_ebml_uint pb4 (MATROSKA_ID_SEEKPOSITION ids) (segmentpos entry);
       pb6 \<leftarrow> end_ebml_master pb5 seekentry;
       seekhead_entries_loop ids pb6 es
     }"

definition mkv_write_seekhead ::
  "matroska_ids \<Rightarrow> ByteIOContext \<Rightarrow> mkv_seekhead \<Rightarrow> (int \<times> ByteIOContext) option" where
  "mkv_write_seekhead ids pb seekhead =
     (let currentpos = url_ftell pb
      in do {
           pb0 \<leftarrow> (if reserved_size seekhead > 0 then url_fseek pb (filepos seekhead)
                   else Some pb);
           (pb1, metaseek) \<leftarrow> start_ebml_master pb0 (MATROSKA_ID_SEEKHEAD ids);
           pb2 \<leftarrow> seekhead_entries_loop ids pb1 (sh_entries seekhead);
           pb3 \<leftarrow> end_ebml_master pb2 metaseek;
           if reserved_size seekhead > 0 then
             do {
               let remaining = (word_of_int
                     (filepos seekhead + reserved_size seekhead - url_ftell pb3) :: 64 word);
               pb4 \<leftarrow> put_ebml_void ids pb3 remaining;
               pb5 \<leftarrow> url_fseek pb4 currentpos;
               Some (filepos seekhead, pb5)
             }
           else Some (currentpos, pb3)
         })"

text \<open>\<^verbatim>\<open>mkv_start_cues\<close> and \<^verbatim>\<open>mkv_add_cuepoint\<close> (lines 303-329).\<close>

definition mkv_start_cues :: "bool \<Rightarrow> int \<Rightarrow> mkv_cues option" where
  "mkv_start_cues av_mallocz_ok segment_offset =
     (if \<not> av_mallocz_ok then None
      else Some \<lparr>cues_segment_offset = segment_offset, cues_entries = []\<rparr>)"

definition mkv_add_cuepoint :: "bool \<Rightarrow> mkv_cues \<Rightarrow> AVPacket \<Rightarrow> int \<Rightarrow> int \<times> mkv_cues" where
  "mkv_add_cuepoint av_realloc_ok cues pkt cluster_pos =
     (if \<not> av_realloc_ok then (- 1, cues)
      else (0, cues\<lparr>cues_entries := cues_entries cues @
              [\<lparr>cue_pts = pts pkt, tracknum = stream_index pkt + 1,
                cue_cluster_pos = cluster_pos - cues_segment_offset cues\<rparr>]\<rparr>))"

text \<open>\<^verbatim>\<open>mkv_write_cues\<close> (lines 331-363). \<open>cues_track_positions\<close> is the inner loop over
  \<^verbatim>\<open>j\<close> (lines 349-354), with \<^verbatim>\<open>entry = &cues->entries[i]\<close>; it returns the stream and
  the final \<^verbatim>\<open>j\<close>. \<open>cues_loop\<close> is the outer loop over \<^verbatim>\<open>i\<close> (lines 339-357).\<close>

function cues_track_positions ::
  "matroska_ids \<Rightarrow> ByteIOContext \<Rightarrow> mkv_cuepoint list \<Rightarrow> nat \<Rightarrow> 64 word \<Rightarrow> nat
     \<Rightarrow> (ByteIOContext \<times> nat) option" where
  "cues_track_positions ids pb es i t j =
     (if j < length es - i \<and> cue_pts (es ! (i + j)) = t then
        do {
          (pb1, track_positions) \<leftarrow> start_ebml_master pb (MATROSKA_ID_CUETRACKPOSITION ids);
          pb2 \<leftarrow> put_ebml_uint pb1 (MATROSKA_ID_CUETRACK ids)
                   (word_of_int (tracknum (es ! (i + j))));
          pb3 \<leftarrow> put_ebml_uint pb2 (MATROSKA_ID_CUECLUSTERPOSITION ids)
                   (word_of_int (cue_cluster_pos (es ! (i + j))));
          pb4 \<leftarrow> end_ebml_master pb3 track_positions;
          cues_track_positions ids pb4 es i t (Suc j)
        }
      else Some (pb, j))"
  by pat_completeness auto
termination
  by (relation "measure (\<lambda>(ids, pb, es, i, t, j). length es - i - j)") auto

declare cues_track_positions.simps [simp del]

lemma cues_track_positions_j:
  "cues_track_positions ids pb es i t j = Some (pb', j') \<Longrightarrow>
     j \<le> j' \<and> (j < length es - i \<and> cue_pts (es ! (i + j)) = t \<longrightarrow> j < j')"
proof (induction ids pb es i t j rule: cues_track_positions.induct)
  case (1 ids pb es i t j)
  show ?case
  proof (cases "j < length es - i \<and> cue_pts (es ! (i + j)) = t")
    case True
    with "1.prems" obtain pb4 where
      "cues_track_positions ids pb4 es i t (Suc j) = Some (pb', j')"
      and "\<exists>pb1 tp pb2 pb3.
             start_ebml_master pb (MATROSKA_ID_CUETRACKPOSITION ids) = Some (pb1, tp)
           \<and> put_ebml_uint pb1 (MATROSKA_ID_CUETRACK ids)
                (word_of_int (tracknum (es ! (i + j)))) = Some pb2
           \<and> put_ebml_uint pb2 (MATROSKA_ID_CUECLUSTERPOSITION ids)
                (word_of_int (cue_cluster_pos (es ! (i + j)))) = Some pb3
           \<and> end_ebml_master pb3 tp = Some pb4"
      by (subst (asm) cues_track_positions.simps)
         (auto simp: bind_eq_Some_conv split: prod.splits)
    with "1.IH" True show ?thesis by fastforce
  next
    case False
    with "1.prems" show ?thesis
      by (subst (asm) cues_track_positions.simps) auto
  qed
qed

function cues_loop ::
  "matroska_ids \<Rightarrow> ByteIOContext \<Rightarrow> mkv_cuepoint list \<Rightarrow> nat \<Rightarrow> ByteIOContext option" where
  "cues_loop ids pb es i =
     (if i < length es then
        do {
          let t = cue_pts (es ! i);
          (pb1, cuepoint) \<leftarrow> start_ebml_master pb (MATROSKA_ID_POINTENTRY ids);
          pb2 \<leftarrow> put_ebml_uint pb1 (MATROSKA_ID_CUETIME ids) t;
          (pb3, j) \<leftarrow> cues_track_positions ids pb2 es i t 0;
          pb4 \<leftarrow> end_ebml_master pb3 cuepoint;
          cues_loop ids pb4 es (i + j - 1 + 1)
        }
      else Some pb)"
  by pat_completeness auto
termination
proof (relation "measure (\<lambda>(ids, pb, es, i). length es - i)", goal_cases)
  case 1
  show ?case by simp
next
  case (2 ids pb es i t x pb1 cuepoint pb2 y pb3 j pb4)
  then have "cues_track_positions ids pb2 es i (cue_pts (es ! i)) 0 = Some (pb3, j)"
    by auto
  from cues_track_positions_j[OF this] 2(1) show ?case by auto
qed

declare cues_loop.simps [simp del]

definition mkv_write_cues ::
  "matroska_ids \<Rightarrow> ByteIOContext \<Rightarrow> mkv_cues \<Rightarrow> (int \<times> ByteIOContext) option" where
  "mkv_write_cues ids pb cues =
     (let currentpos = url_ftell pb
      in do {
           (pb1, cues_element) \<leftarrow> start_ebml_master pb (MATROSKA_ID_CUES ids);
           pb2 \<leftarrow> cues_loop ids pb1 (cues_entries cues) 0;
           pb3 \<leftarrow> end_ebml_master pb2 cues_element;
           Some (currentpos, pb3)
         })"

section \<open>Matroska: the segment orchestrator\<close>

text \<open>
  \<^verbatim>\<open>MatroskaMuxContext\<close> (matroskaenc.c, lines 54-68). Modelled from the spec: the MD5
  hasher (\<^verbatim>\<open>av_md5_update\<close>, \<^verbatim>\<open>av_md5_final\<close>, absent from the sources) accumulates the
  bytes it is given; its state \<open>md5_ctx\<close> is the bytes given so far, and the digest is a
  function of them, the parameter \<open>av_md5_final\<close> of the trailer.
\<close>

record MatroskaMuxContext =
  segment :: int
  segment_offset :: int
  segment_uid :: int
  cluster :: int
  cluster_pos :: int
  cluster_pts :: "64 word"
  duration_offset :: int
  duration :: "64 word"
  main_seekhead :: mkv_seekhead
  cluster_seekhead :: mkv_seekhead
  cues :: mkv_cues
  md5_ctx :: "byte list"

definition av_md5_update :: "byte list \<Rightarrow> byte list \<Rightarrow> byte list" where
  "av_md5_update ctx bs = ctx @ bs"

text \<open>\<^verbatim>\<open>mkv_write_block\<close> (lines 641-654). \<^verbatim>\<open>pkt->size + 4\<close> is computed in \<^verbatim>\<open>int\<close>;
  \<^verbatim>\<open>put_byte\<close> keeps the low 8 bits of its argument and \<^verbatim>\<open>put_be16\<close> the low 16.\<close>

definition mkv_write_block ::
  "MatroskaMuxContext \<Rightarrow> ByteIOContext \<Rightarrow> 32 word \<Rightarrow> AVPacket \<Rightarrow> int \<Rightarrow> ByteIOContext option" where
  "mkv_write_block mkv pb blockid pkt flags =
     (if 2 ^ 31 \<le> int (length (data pkt)) + 4 then None
      else do {
        pb1 \<leftarrow> put_ebml_id pb blockid;
        pb2 \<leftarrow> put_ebml_size pb1 (word_of_int (int (length (data pkt)) + 4)) 0;
        let pb3 = put_byte pb2 (word_of_int (0x80 OR (stream_index pkt + 1)));
        let pb4 = put_be16 pb3 (ucast (pts pkt - cluster_pts mkv));
        let pb5 = put_byte pb4 (word_of_int flags);
        Some (put_buffer pb5 (data pkt))
      })"

text \<open>
  \<^verbatim>\<open>mkv_write_packet\<close> (lines 656-694). \<open>streams\<close> holds
  \<^verbatim>\<open>s->streams[i]->codec->codec_type\<close>; an index outside it is a read outside the array.
  The comparison \<^verbatim>\<open>pkt->pts > mkv->cluster_pts + 5000\<close> is between an \<^verbatim>\<open>int64_t\<close> and a
  \<^verbatim>\<open>uint64_t\<close>, so it is unsigned, as the order of \<open>64 word\<close> is.
  \<open>mkv_start_cluster\<close> is the body of the \<^verbatim>\<open>if\<close> of lines 664-676 and
  \<open>mkv_write_packet_block\<close> is lines 678-693. The result is the returned \<^verbatim>\<open>int\<close>, the
  context and the stream.
\<close>

definition mkv_start_cluster ::
  "matroska_ids \<Rightarrow> bool \<Rightarrow> MatroskaMuxContext \<Rightarrow> ByteIOContext \<Rightarrow> AVPacket
     \<Rightarrow> (int \<times> MatroskaMuxContext \<times> ByteIOContext) option" where
  "mkv_start_cluster ids av_realloc_ok mkv pb pkt =
     do {
       pb1 \<leftarrow> end_ebml_master pb (cluster mkv);
       let (ret, sh) = mkv_add_seekhead_entry av_realloc_ok (cluster_seekhead mkv)
                         (MATROSKA_ID_CLUSTER ids) (word_of_int (url_ftell pb1));
       if ret < 0 then Some (- 1, mkv, pb1)
       else do {
         let mkv1 = mkv\<lparr>cluster_seekhead := sh, cluster_pos := url_ftell pb1\<rparr>;
         (pb2, c) \<leftarrow> start_ebml_master pb1 (MATROSKA_ID_CLUSTER ids);
         let mkv2 = mkv1\<lparr>cluster := c\<rparr>;
         pb3 \<leftarrow> put_ebml_uint pb2 (MATROSKA_ID_CLUSTERTIMECODE ids) (pts pkt);
         let mkv3 = mkv2\<lparr>cluster_pts := pts pkt\<rparr>;
         let mkv4 = mkv3\<lparr>md5_ctx := av_md5_update (md5_ctx mkv3)
                            (take (nat (min 200 (int (length (data pkt))))) (data pkt))\<rparr>;
         Some (0, mkv4, pb3)
       }
     }"

definition mkv_write_packet_block ::
  "matroska_ids \<Rightarrow> bool \<Rightarrow> CodecType \<Rightarrow> MatroskaMuxContext \<Rightarrow> ByteIOContext \<Rightarrow> AVPacket
     \<Rightarrow> (int \<times> MatroskaMuxContext \<times> ByteIOContext) option" where
  "mkv_write_packet_block ids av_realloc_ok codec mkv pb pkt =
     (let keyframe = (if is_keyframe pkt then 1 else 0 :: int)
      in do {
        pb1 \<leftarrow> (if codec \<noteq> CODEC_TYPE_SUBTITLE
                then mkv_write_block mkv pb (MATROSKA_ID_SIMPLEBLOCK ids) pkt (push_bit 7 keyframe)
                else do {
                  (pba, blockgroup) \<leftarrow> start_ebml_master pb (MATROSKA_ID_BLOCKGROUP ids);
                  pbb \<leftarrow> mkv_write_block mkv pba (MATROSKA_ID_BLOCK ids) pkt 0;
                  pbc \<leftarrow> put_ebml_uint pbb (MATROSKA_ID_DURATION ids)
                             (word_of_int (pkt_duration pkt));
                  end_ebml_master pbc blockgroup
                });
        if codec = CODEC_TYPE_VIDEO \<and> keyframe \<noteq> 0 then
          (let (ret, c) = mkv_add_cuepoint av_realloc_ok (cues mkv) pkt (cluster_pos mkv)
           in if ret < 0 then Some (- 1, mkv, pb1)
              else Some (0, mkv\<lparr>cues := c,
                                 duration := pts pkt + word_of_int (pkt_duration pkt)\<rparr>, pb1))
        else Some (0, mkv\<lparr>duration := pts pkt + word_of_int (pkt_duration pkt)\<rparr>, pb1)
      })"

definition mkv_write_packet ::
  "matroska_ids \<Rightarrow> bool \<Rightarrow> bool \<Rightarrow> CodecType list \<Rightarrow> MatroskaMuxContext \<Rightarrow> ByteIOContext
     \<Rightarrow> AVPacket \<Rightarrow> (int \<times> MatroskaMuxContext \<times> ByteIOContext) option" where
  "mkv_write_packet ids seekhead_realloc_ok cues_realloc_ok streams mkv pb pkt =
     (if stream_index pkt < 0 \<or> int (length streams) \<le> stream_index pkt then None
      else
        (let codec = streams ! nat (stream_index pkt)
         in if url_ftell pb > cluster mkv + 5 * 1024 * 1024
               \<or> pts pkt > cluster_pts mkv + 5000
            then do {
              (ret, mkv1, pb1) \<leftarrow> mkv_start_cluster ids seekhead_realloc_ok mkv pb pkt;
              if ret < 0 then Some (- 1, mkv1, pb1)
              else mkv_write_packet_block ids cues_realloc_ok codec mkv1 pb1 pkt
            }
            else mkv_write_packet_block ids cues_realloc_ok codec mkv pb pkt))"

text \<open>The calls of \<^verbatim>\<open>mkv_write_packet\<close> that the format layer makes for a sequence of
  packets, every allocation granted; a call that does not return 0 ends the sequence.\<close>

fun mkv_write_packets ::
  "matroska_ids \<Rightarrow> CodecType list \<Rightarrow> MatroskaMuxContext \<Rightarrow> ByteIOContext \<Rightarrow> AVPacket list
     \<Rightarrow> (int \<times> MatroskaMuxContext \<times> ByteIOContext) option" where
  "mkv_write_packets ids streams mkv pb [] = Some (0, mkv, pb)"
| "mkv_write_packets ids streams mkv pb (pkt # pkts) =
     do {
       (ret, mkv1, pb1) \<leftarrow> mkv_write_packet ids True True streams mkv pb pkt;
       if ret < 0 then Some (ret, mkv1, pb1)
       else mkv_write_packets ids streams mkv1 pb1 pkts
     }"

text \<open>
  \<^verbatim>\<open>mkv_write_trailer\<close> (lines 696-729). \<open>mkv_write_trailer_index\<close> is lines 702-709:
  the cluster is closed and the Cues and the two SeekHeads are written;
  \<open>mkv_write_trailer_update\<close> is lines 711-728: the Duration and the SegmentUID are
  rewritten and the segment is closed. \<open>to_double\<close> is C's conversion of the
  \<^verbatim>\<open>uint64_t\<close> duration to \<^verbatim>\<open>double\<close>, \<open>bitexact\<close> is the test of
  \<^verbatim>\<open>CODEC_FLAG_BITEXACT\<close>, and \<open>av_realloc_ok\<close> serves the two calls of
  \<^verbatim>\<open>mkv_add_seekhead_entry\<close>, whose results the function ignores.
\<close>

definition mkv_write_trailer_index ::
  "matroska_ids \<Rightarrow> bool \<Rightarrow> MatroskaMuxContext \<Rightarrow> ByteIOContext \<Rightarrow> ByteIOContext option" where
  "mkv_write_trailer_index ids av_realloc_ok mkv pb =
     do {
       pb1 \<leftarrow> end_ebml_master pb (cluster mkv);
       (cuespos, pb2) \<leftarrow> mkv_write_cues ids pb1 (cues mkv);
       (second_seekhead, pb3) \<leftarrow> mkv_write_seekhead ids pb2 (cluster_seekhead mkv);
       let (r1, sh1) = mkv_add_seekhead_entry av_realloc_ok (main_seekhead mkv)
                          (MATROSKA_ID_CUES ids) (word_of_int cuespos);
       let (r2, sh2) = mkv_add_seekhead_entry av_realloc_ok sh1
                          (MATROSKA_ID_SEEKHEAD ids) (word_of_int second_seekhead);
       (r3, pb4) \<leftarrow> mkv_write_seekhead ids pb3 sh2;
       Some pb4
     }"

definition mkv_write_trailer_update ::
  "matroska_ids \<Rightarrow> ('d \<Rightarrow> 64 word) \<Rightarrow> (64 word \<Rightarrow> 'd) \<Rightarrow> (byte list \<Rightarrow> byte list) \<Rightarrow> bool
     \<Rightarrow> MatroskaMuxContext \<Rightarrow> ByteIOContext \<Rightarrow> (int \<times> ByteIOContext) option" where
  "mkv_write_trailer_update ids av_dbl2int to_double av_md5_final bitexact mkv pb4 =
     (let currentpos = url_ftell pb4
      in do {
        pb5 \<leftarrow> url_fseek pb4 (duration_offset mkv);
        pb6 \<leftarrow> put_ebml_float av_dbl2int pb5 (MATROSKA_ID_DURATION ids) (to_double (duration mkv));
        pb7 \<leftarrow> (if \<not> bitexact then
                  do {
                    let uid = av_md5_final (md5_ctx mkv);
                    pba \<leftarrow> url_fseek pb6 (segment_uid mkv);
                    put_ebml_binary pba (MATROSKA_ID_SEGMENTUID ids) (take 16 uid)
                  }
                else Some pb6);
        pb8 \<leftarrow> url_fseek pb7 currentpos;
        pb9 \<leftarrow> end_ebml_master pb8 (segment mkv);
        Some (0, pb9)
      })"

definition mkv_write_trailer ::
  "matroska_ids \<Rightarrow> ('d \<Rightarrow> 64 word) \<Rightarrow> (64 word \<Rightarrow> 'd) \<Rightarrow> (byte list \<Rightarrow> byte list) \<Rightarrow> bool \<Rightarrow> bool
     \<Rightarrow> MatroskaMuxContext \<Rightarrow> ByteIOContext \<Rightarrow> (int \<times> ByteIOContext) option" where
  "mkv_write_trailer ids av_dbl2int to_double av_md5_final bitexact av_realloc_ok mkv pb =
     do {
       pb4 \<leftarrow> mkv_write_trailer_index ids av_realloc_ok mkv pb;
       mkv_write_trailer_update ids av_dbl2int to_double av_md5_final bitexact mkv pb4
     }"

section \<open>Matroska: the AAC sample rates\<close>

text \<open>
  \<^verbatim>\<open>get_aac_sample_rates\<close> (lines 418-447). \<^verbatim>\<open>extradata_size\<close> is the length of
  \<open>extradata\<close>. The arguments \<open>sample_rate_in\<close> and \<open>output_sample_rate_in\<close> are the
  values behind the two pointers on entry; the result holds the warning logged, if any, and the
  two values on return. The table has 12 entries; \<open>None\<close> is a read outside it.
\<close>

datatype aac_warning = No_Aac_Extradata | Samplerate_Index_Out_Of_Bounds
  | Output_Samplerate_Index_Out_Of_Bounds

definition aac_sample_rates :: "int list" where
  "aac_sample_rates =
     [96000, 88200, 64000, 48000, 44100, 32000, 24000, 22050, 16000, 12000, 11025, 8000]"

definition aac_table_read :: "int \<Rightarrow> int option" where
  "aac_table_read sri =
     (if 0 \<le> sri \<and> sri < int (length aac_sample_rates) then Some (aac_sample_rates ! nat sri)
      else None)"

definition get_aac_sample_rates ::
  "byte list \<Rightarrow> int \<Rightarrow> int \<Rightarrow> (aac_warning option \<times> int \<times> int) option" where
  "get_aac_sample_rates extradata sample_rate_in output_sample_rate_in =
     (if length extradata < 2 then Some (Some No_Aac_Extradata, sample_rate_in, output_sample_rate_in)
      else
        (let sri = (push_bit 1 (uint (extradata ! 0)) AND 0xE) OR drop_bit 7 (uint (extradata ! 1))
         in if sri > 12
            then Some (Some Samplerate_Index_Out_Of_Bounds, sample_rate_in, output_sample_rate_in)
            else do {
              sr \<leftarrow> aac_table_read sri;
              if length extradata = 5 then
                (let sri2 = drop_bit 3 (uint (extradata ! 4)) AND 0xF
                 in if sri2 > 12
                    then Some (Some Output_Samplerate_Index_Out_Of_Bounds, sr, output_sample_rate_in)
                    else do {
                      osr \<leftarrow> aac_table_read sri2;
                      Some (None, sr, osr)
                    })
              else Some (None, sr, output_sample_rate_in)
            }))"

section \<open>Encodings as the specification states them\<close>

text \<open>
  The value of a byte string read big-endian, and the \<open>n\<close> big-endian bytes of a number.
  They state what the specification says of BER lengths and of EBML sizes; the code is
  compared with them.
\<close>

definition be_nat :: "byte list \<Rightarrow> nat" where
  "be_nat bs = foldl (\<lambda>a b. 256 * a + unat b) 0 bs"

definition be_bytes :: "nat \<Rightarrow> nat \<Rightarrow> byte list" where
  "be_bytes n v = map (\<lambda>i. of_nat (v div 256 ^ i)) (rev [0..<n])"

text \<open>BER long form (glossary of the specification): a first byte with the MSB set whose
  low 7 bits count the length bytes, then the length in that many big-endian bytes. The
  short form is the single byte \<open>v < 128\<close>.\<close>

definition ber_long :: "nat \<Rightarrow> nat \<Rightarrow> byte list" where
  "ber_long n v = of_nat (128 + n) # be_bytes n v"

section \<open>Test vectors\<close>


definition test_track :: "int \<Rightarrow> byte list \<Rightarrow> MXFTrack" where
  "test_track i tn = \<lparr>sequence = None, track_id = i, track_number = tn,
                      edit_rate = \<lparr>num = 25, den = 1\<rparr>\<rparr>"

definition test_streams :: "AVStream list" where
  "test_streams =
     [(av_new_stream [] 1)\<lparr>priv_data := test_track 1 [0x15, 0x01, 0x05, 0x00]\<rparr>,
      (av_new_stream [av_new_stream [] 1] 2)\<lparr>priv_data := test_track 2 [0x15, 0x01, 0x05, 0x01]\<rparr>]"

definition test_klv :: KLVPacket where
  "test_klv = \<lparr>key = replicate 16 0, offset = 0, klv_length = 0\<rparr>"

definition test_pkt :: AVPacket where
  "test_pkt = \<lparr>data = [], stream_index = 0, pts = 0, pkt_duration = 0, is_keyframe = False\<rparr>"

text \<open>A stream \<open>test_unroutable_stream\<close> of two essence elements: the first, of 1 byte, for
  the track number \<open>15 01 05 07\<close>, which no stream of \<open>test_streams\<close> has; the second, of
  2 bytes, for the track number \<open>15 01 05 01\<close>.\<close>

definition test_unroutable_stream :: "byte list" where
  "test_unroutable_stream =
     [0x06, 0x0e, 0x2b, 0x34, 0x01, 0x02, 0x01, 0x01, 0x0d, 0x01, 0x03, 0x01, 0x15, 0x01, 0x05, 0x07,
      0x01, 0x11,
      0x06, 0x0e, 0x2b, 0x34, 0x01, 0x02, 0x01, 0x01, 0x0d, 0x01, 0x03, 0x01, 0x15, 0x01, 0x05, 0x01,
      0x02, 0xDE, 0xAD]"


definition test_oversize_unroutable_stream :: "byte list" where
  "test_oversize_unroutable_stream =
     [0x06, 0x0e, 0x2b, 0x34, 0x01, 0x02, 0x01, 0x01, 0x0d, 0x01, 0x03, 0x01, 0x15, 0x01, 0x05, 0x07,
      0x85, 0x01, 0x00, 0x00, 0x00, 0x01,
      0x11, 0x22, 0x33]"



text \<open>
  An object graph \<open>test_mxf\<close>: a material package with two tracks and a source package
  \<open>test_source_package\<close> with one track of \<^verbatim>\<open>track_id\<close> 1. The clip of the first material
  track refers to the source package and its track 1; the clip of the second material
  track refers to a package UID that no package has, and to track 1.
  \<open>test_mxf_swapped\<close> is the same graph with the two material tracks in the other order.
\<close>

definition test_source_track :: MXFTrack where
  "test_source_track =
     \<lparr>sequence = Some \<lparr>data_definition_ul = picture_essence_track_ul, structural_components = []\<rparr>,
      track_id = 1, track_number = [0x15, 0x01, 0x05, 0x00], edit_rate = \<lparr>num = 25, den = 1\<rparr>\<rparr>"

definition test_source_package :: MXFPackage where
  "test_source_package =
     \<lparr>package_uid = replicate 16 0x50, tracks = [Some test_source_track], descriptor = None,
      package_type = SourcePackage\<rparr>"

definition test_clip :: "UID \<Rightarrow> int \<Rightarrow> MXFStructuralComponent" where
  "test_clip uid tid =
     \<lparr>source_package_uid = uid, component_duration = 100, start_position = 0,
      source_track_id = tid, component_type = SourceClip\<rparr>"

definition test_material_track :: "int \<Rightarrow> int \<Rightarrow> UID \<Rightarrow> MXFTrack" where
  "test_material_track tid rate uid =
     \<lparr>sequence = Some \<lparr>data_definition_ul = picture_essence_track_ul,
                       structural_components = [Some (test_clip uid 1)]\<rparr>,
      track_id = tid, track_number = [0, 0, 0, 0], edit_rate = \<lparr>num = rate, den = 1\<rparr>\<rparr>"

definition test_mxf :: MXFContext where
  "test_mxf =
     \<lparr>packages =
        [Some \<lparr>package_uid = replicate 16 0,
               tracks = [Some (test_material_track 1 25 (replicate 16 0x50)),
                         Some (test_material_track 2 30 (replicate 16 0x51))],
               descriptor = None, package_type = MaterialPackage\<rparr>,
         Some test_source_package]\<rparr>"

definition test_mxf_swapped :: MXFContext where
  "test_mxf_swapped =
     \<lparr>packages =
        [Some \<lparr>package_uid = replicate 16 0,
               tracks = [Some (test_material_track 2 30 (replicate 16 0x51)),
                         Some (test_material_track 1 25 (replicate 16 0x50))],
               descriptor = None, package_type = MaterialPackage\<rparr>,
         Some test_source_package]\<rparr>"

section \<open>EBML elements as the specification states them\<close>

text \<open>
  An identifier is written as it is, big-endian, in as many bytes as
  \<^verbatim>\<open>ebml_id_size\<close> says. A size field of \<open>n\<close> bytes holds a payload of \<open>7n\<close> bits behind a
  marker bit, the bit \<open>7n\<close> of the big-endian value; \<open>ebml_size_marker\<close> and
  \<open>ebml_size_decode\<close> read the marker and the payload back from the bytes. The unknown
  size of \<open>n\<close> bytes has every payload bit set.
\<close>

definition ebml_id_bytes :: "32 word \<Rightarrow> byte list" where
  "ebml_id_bytes eid = be_bytes (nat (ebml_id_size eid)) (unat eid)"

definition ebml_size_field :: "nat \<Rightarrow> nat \<Rightarrow> byte list" where
  "ebml_size_field n s = be_bytes n (2 ^ (7 * n) + s)"

definition ebml_size_marker :: "byte list \<Rightarrow> nat" where
  "ebml_size_marker bs = be_nat bs div 2 ^ (7 * length bs)"

definition ebml_size_decode :: "byte list \<Rightarrow> nat" where
  "ebml_size_decode bs = be_nat bs mod 2 ^ (7 * length bs)"

definition ebml_unknown_size :: "nat \<Rightarrow> byte list" where
  "ebml_unknown_size n = be_bytes n (2 ^ (7 * n + 1) - 1)"

text \<open>An unsigned integer element: the identifier, a 1-byte size field and the value in the
  least number of bytes that holds it. A master element: the identifier, an 8-byte
  size field with the length of the body, and the body.\<close>

fun ebml_uint_bytes :: "nat \<Rightarrow> nat" where
  "ebml_uint_bytes v = (if v < 256 then 1 else Suc (ebml_uint_bytes (v div 256)))"

declare ebml_uint_bytes.simps [simp del]

definition ebml_uint :: "32 word \<Rightarrow> nat \<Rightarrow> byte list" where
  "ebml_uint eid v =
     ebml_id_bytes eid @ ebml_size_field 1 (ebml_uint_bytes v) @ be_bytes (ebml_uint_bytes v) v"

definition ebml_master :: "32 word \<Rightarrow> byte list \<Rightarrow> byte list" where
  "ebml_master eid body = ebml_id_bytes eid @ ebml_size_field 8 (length body) @ body"

text \<open>The identifiers that the Matroska specification registers for the elements, as values
  for the parameter \<open>ids\<close> in the test vectors.\<close>

definition matroska_h :: matroska_ids where
  "matroska_h =
     \<lparr>EBML_ID_VOID = 0xEC,
      MATROSKA_ID_SEEKHEAD = 0x114D9B74,
      MATROSKA_ID_SEEKENTRY = 0x4DBB,
      MATROSKA_ID_SEEKID = 0x53AB,
      MATROSKA_ID_SEEKPOSITION = 0x53AC,
      MATROSKA_ID_CUES = 0x1C53BB6B,
      MATROSKA_ID_POINTENTRY = 0xBB,
      MATROSKA_ID_CUETIME = 0xB3,
      MATROSKA_ID_CUETRACKPOSITION = 0xB7,
      MATROSKA_ID_CUETRACK = 0xF7,
      MATROSKA_ID_CUECLUSTERPOSITION = 0xF1,
      MATROSKA_ID_CLUSTER = 0x1F43B675,
      MATROSKA_ID_CLUSTERTIMECODE = 0xE7,
      MATROSKA_ID_SIMPLEBLOCK = 0xA3,
      MATROSKA_ID_BLOCKGROUP = 0xA0,
      MATROSKA_ID_BLOCK = 0xA1,
      MATROSKA_ID_DURATION = 0x4489,
      MATROSKA_ID_SEGMENTUID = 0x73A4\<rparr>"

text \<open>A SeekHead started for one entry at the offset 0 of an empty file, and the entry added
  to it: a Cluster at the segment position 100.\<close>

definition test_seekhead :: mkv_seekhead where
  "test_seekhead =
     \<lparr>filepos = 0, sh_segment_offset = 0, reserved_size = 41, max_entries = 1, sh_entries = []\<rparr>"

definition test_seekhead_1 :: mkv_seekhead where
  "test_seekhead_1 =
     test_seekhead\<lparr>sh_entries := [\<lparr>elementid = 0x1F43B675, segmentpos = 100\<rparr>]\<rparr>"

definition test_seekhead_bytes :: "byte list" where
  "test_seekhead_bytes =
     [0x11, 0x4D, 0x9B, 0x74, 0x01, 0, 0, 0, 0, 0, 0, 0x15,
      0x4D, 0xBB, 0x01, 0, 0, 0, 0, 0, 0, 0x0B,
      0x53, 0xAB, 0x84, 0x1F, 0x43, 0xB6, 0x75,
      0x53, 0xAC, 0x81, 0x64]"

section \<open>The Cues element as the specification states it\<close>

text \<open>
  \<open>pts_runs\<close> cuts the cue entries, in their order, into the maximal runs of contiguous
  entries with the same pts. A CuePoint holds the CueTime of its run and one
  CueTrackPosition for each entry of the run, with the track number and the
  segment-relative cluster position of the entry; the Cues element holds one CuePoint
  for each run.
\<close>

function pts_runs :: "mkv_cuepoint list \<Rightarrow> mkv_cuepoint list list" where
  "pts_runs [] = []"
| "pts_runs (e # es) =
     (e # takeWhile (\<lambda>x. cue_pts x = cue_pts e) es)
       # pts_runs (dropWhile (\<lambda>x. cue_pts x = cue_pts e) es)"
  by pat_completeness auto
termination
  by (relation "measure length") (auto simp: length_dropWhile_le less_Suc_eq_le)

definition cue_track_position :: "matroska_ids \<Rightarrow> mkv_cuepoint \<Rightarrow> byte list" where
  "cue_track_position ids e =
     ebml_master (MATROSKA_ID_CUETRACKPOSITION ids)
       (ebml_uint (MATROSKA_ID_CUETRACK ids) (nat (tracknum e))
        @ ebml_uint (MATROSKA_ID_CUECLUSTERPOSITION ids) (nat (cue_cluster_pos e)))"

definition cue_point :: "matroska_ids \<Rightarrow> mkv_cuepoint list \<Rightarrow> byte list" where
  "cue_point ids run =
     ebml_master (MATROSKA_ID_POINTENTRY ids)
       (ebml_uint (MATROSKA_ID_CUETIME ids) (unat (cue_pts (hd run)))
        @ concat (map (cue_track_position ids) run))"

definition cues_element :: "matroska_ids \<Rightarrow> mkv_cuepoint list \<Rightarrow> byte list" where
  "cues_element ids es =
     ebml_master (MATROSKA_ID_CUES ids) (concat (map (cue_point ids) (pts_runs es)))"




section \<open>A muxer state and packets\<close>

text \<open>
  A muxer state \<open>test_mux\<close> as the header leaves it, on a file \<open>test_mux_pb\<close> of 126
  bytes: the segment starts at 12, a main SeekHead for 2 entries is reserved at 12, the
  SegmentUID at 81 and the Duration at 100; the first cluster is at 111, its content
  starts at 123 and its timecode is 0. The streams \<open>test_codecs\<close> are a video and an
  audio stream. \<open>test_video_pkt\<close> is a video key frame of 3 bytes with pts 40 and
  duration 40; \<open>test_audio_pkt\<close>, written after it, is an audio frame of 2 bytes with pts
  46 and duration 23; \<open>test_late_pkt\<close> is a video key frame with pts 6000.
\<close>

definition test_mux :: MatroskaMuxContext where
  "test_mux =
     \<lparr>segment = 12, segment_offset = 12, segment_uid = 81, cluster = 123, cluster_pos = 111,
      cluster_pts = 0, duration_offset = 100, duration = 0,
      main_seekhead = \<lparr>filepos = 12, sh_segment_offset = 12, reserved_size = 69,
                       max_entries = 2, sh_entries = []\<rparr>,
      cluster_seekhead = \<lparr>filepos = 0, sh_segment_offset = 12, reserved_size = 0,
                          max_entries = 0, sh_entries = []\<rparr>,
      cues = \<lparr>cues_segment_offset = 12, cues_entries = []\<rparr>,
      md5_ctx = []\<rparr>"

definition test_mux_pb :: ByteIOContext where
  "test_mux_pb = \<lparr>buf = replicate 126 0, pos = 126\<rparr>"

definition test_codecs :: "CodecType list" where
  "test_codecs = [CODEC_TYPE_VIDEO, CODEC_TYPE_AUDIO]"

definition test_video_pkt :: AVPacket where
  "test_video_pkt =
     \<lparr>data = [1, 2, 3], stream_index = 0, pts = 40, pkt_duration = 40, is_keyframe = True\<rparr>"

definition test_audio_pkt :: AVPacket where
  "test_audio_pkt =
     \<lparr>data = [4, 5], stream_index = 1, pts = 46, pkt_duration = 23, is_keyframe = True\<rparr>"

definition test_late_pkt :: AVPacket where
  "test_late_pkt =
     \<lparr>data = [6, 7, 8, 9], stream_index = 0, pts = 6000, pkt_duration = 40, is_keyframe = True\<rparr>"

section \<open>Facts about bytes and big-endian strings\<close>

lemma or_byte: "push_bit 8 (w::64 word) OR ucast (b::8 word) = w * 256 + ucast b"
proof -
  have "push_bit 8 w + ucast b = push_bit 8 w OR ucast b"
    by (rule disjunctive_add_eq_or) (auto simp: bit_eq_iff bit_simps dest: bit_imp_le_length)
  then show ?thesis by (simp add: push_bit_eq_mult)
qed

lemma be_nat_snoc: "be_nat (bs @ [b]) = 256 * be_nat bs + unat b"
  by (simp add: be_nat_def)

lemma foldl_be: "foldl (\<lambda>a b. 256 * a + unat (b::byte)) a bs = a * 256 ^ length bs + be_nat bs"
  by (induction bs rule: rev_induct) (simp_all add: be_nat_def algebra_simps)

lemma be_nat_Cons: "be_nat (b # bs) = unat b * 256 ^ length bs + be_nat bs"
  using foldl_be[of "unat b" bs] by (simp add: be_nat_def)

lemma be_nat_bound: "be_nat bs < 256 ^ length bs"
proof (induction bs rule: rev_induct)
  case Nil show ?case by (simp add: be_nat_def)
next
  case (snoc b bs)
  have "unat b < 256" using unsigned_less[of b] by simp
  with snoc show ?case by (simp add: be_nat_snoc)
qed

lemma length_be_bytes: "length (be_bytes n v) = n"
  by (simp add: be_bytes_def)

lemma be_bytes_Suc: "be_bytes (Suc n) v = of_nat (v div 256 ^ n) # be_bytes n v"
  by (simp add: be_bytes_def)

lemma unat_of_nat_byte: "unat (of_nat k :: byte) = k mod 256"
  by (simp add: unat_of_nat)

lemma be_nat_be_bytes: "be_nat (be_bytes n v) = v mod 256 ^ n"
proof (induction n)
  case 0 show ?case by (simp add: be_bytes_def be_nat_def)
next
  case (Suc n)
  have "v mod (256 ^ n * 256) = (v div 256 ^ n mod 256) * 256 ^ n + v mod 256 ^ n"
    by (simp add: mod_mult2_eq)
  with Suc show ?case
    by (simp add: be_bytes_Suc be_nat_Cons length_be_bytes unat_of_nat_byte ac_simps)
qed

lemma sint_of_nat_small: "v < 2 ^ 63 \<Longrightarrow> sint (of_nat v :: 64 word) = int v"
proof -
  assume a: "v < 2 ^ 63"
  have "(of_nat v :: 64 word) = word_of_int (int v)" by simp
  then have "sint (of_nat v :: 64 word) = (int v + 2 ^ 63) mod 2 ^ 64 - 2 ^ 63"
    by (simp only: int_word_sint) simp
  also have "\<dots> = int v" using a by simp
  finally show ?thesis .
qed

section \<open>Reading from the byte stream\<close>

lemma get_byte_at:
  "drop (pos pb) (buf pb) = b # rest \<Longrightarrow> get_byte pb = (b, pb\<lparr>pos := pos pb + 1\<rparr>)"
proof -
  assume a: "drop (pos pb) (buf pb) = b # rest"
  then have "pos pb < length (buf pb)" by (cases "pos pb < length (buf pb)") auto
  moreover from a have "buf pb ! pos pb = b"
    by (metis calculation Cons_nth_drop_Suc list.inject)
  ultimately show ?thesis by (simp add: get_byte_def)
qed

lemma drop_after_byte:
  "drop (pos pb) (buf pb) = b # rest \<Longrightarrow>
   drop (pos (pb\<lparr>pos := pos pb + 1\<rparr>)) (buf (pb\<lparr>pos := pos pb + 1\<rparr>)) = rest"
  by simp (metis drop_Suc drop_drop list.sel(3) tl_drop plus_1_eq_Suc)

section \<open>BER length decoding\<close>

lemma ber_long_form_reads:
  "drop (pos pb) (buf pb) = bs @ rest \<Longrightarrow>
   ber_long_form (length bs) sz pb
     = (sz * 256 ^ length bs + of_nat (be_nat bs), pb\<lparr>pos := pos pb + length bs\<rparr>)"
proof (induction bs arbitrary: sz pb)
  case Nil
  then show ?case by (simp add: be_nat_def)
next
  case (Cons b bs)
  have g: "get_byte pb = (b, pb\<lparr>pos := pos pb + 1\<rparr>)"
    using get_byte_at[of pb b "bs @ rest"] Cons.prems by simp
  have d: "drop (pos (pb\<lparr>pos := pos pb + 1\<rparr>)) (buf (pb\<lparr>pos := pos pb + 1\<rparr>)) = bs @ rest"
    using drop_after_byte[of pb b "bs @ rest"] Cons.prems by simp
  show ?case
    using Cons.IH[OF d, of "push_bit 8 sz OR ucast b"] g
    by (simp add: or_byte be_nat_Cons algebra_simps)
qed

lemma ber_type_bit: "(drop_bit 7 (b::byte) \<noteq> 0) = bit b 7"
proof -
  have u: "unat b < 256" using unsigned_less[of b] by simp
  have "bit (unat b) 7 = bit b 7" by (simp add: bit_unsigned_iff)
  moreover have "bit (unat b) 7 = odd (unat b div 2 ^ 7)" by (simp only: bit_iff_odd)
  ultimately have 1: "bit b 7 = odd (unat b div 2 ^ 7)" by simp
  have 2: "unat (drop_bit 7 b) = unat b div 2 ^ 7"
    by (simp add: drop_bit_eq_div unat_div)
  have "(drop_bit 7 b \<noteq> 0) = (unat (drop_bit 7 b) \<noteq> 0)"
    by (simp add: unat_eq_0)
  also have "\<dots> = odd (unat b div 2 ^ 7)"
    using u unfolding 2 by (auto elim!: oddE)
  finally show ?thesis using 1 by simp
qed

lemma decode_short:
  "get_byte pb = (b, pb1) \<Longrightarrow> \<not> bit b 7 \<Longrightarrow>
   klv_decode_ber_length pb = (ucast (b AND 0x7f), pb1)"
  by (simp add: klv_decode_ber_length_def ber_type_bit)

lemma decode_reject:
  "get_byte pb = (b, pb1) \<Longrightarrow> bit b 7 \<Longrightarrow> 8 < unat (b AND 0x7f) \<Longrightarrow>
   klv_decode_ber_length pb = (- 1, pb1)"
  by (simp add: klv_decode_ber_length_def ber_type_bit)

lemma decode_long:
  "get_byte pb = (b, pb1) \<Longrightarrow> bit b 7 \<Longrightarrow> unat (b AND 0x7f) \<le> 8 \<Longrightarrow>
   drop (pos pb1) (buf pb1) = bs @ rest \<Longrightarrow> length bs = unat (b AND 0x7f) \<Longrightarrow>
   klv_decode_ber_length pb = (of_nat (be_nat bs), pb1\<lparr>pos := pos pb1 + length bs\<rparr>)"
  using ber_long_form_reads[of pb1 bs rest 0]
  by (simp add: klv_decode_ber_length_def ber_type_bit)

lemma long_first_byte:
  "1 \<le> n \<Longrightarrow> n \<le> 8 \<Longrightarrow>
   bit (of_nat (128 + n) :: byte) 7 \<and> unat ((of_nat (128 + n) :: byte) AND 0x7f) = n"
proof -
  assume "1 \<le> n" "n \<le> 8"
  then have "n \<in> {1, 2, 3, 4, 5, 6, 7, 8}" by auto
  then show ?thesis by auto
qed

lemma decode_inverts_long:
  assumes "1 \<le> n" "n \<le> 8" "v < 256 ^ n"
    and "drop (pos pb) (buf pb) = ber_long n v @ rest"
  shows "klv_decode_ber_length pb = (of_nat v, pb\<lparr>pos := pos pb + 1 + n\<rparr>)"
proof -
  let ?b = "of_nat (128 + n) :: byte"
  from assms(4) have g: "get_byte pb = (?b, pb\<lparr>pos := pos pb + 1\<rparr>)"
    by (simp add: ber_long_def get_byte_at)
  have d: "drop (pos (pb\<lparr>pos := pos pb + 1\<rparr>)) (buf (pb\<lparr>pos := pos pb + 1\<rparr>))
             = be_bytes n v @ rest"
    using drop_after_byte[of pb ?b "be_bytes n v @ rest"] assms(4) by (simp add: ber_long_def)
  from long_first_byte[OF assms(1,2)] have f: "bit ?b 7" "unat (?b AND 0x7f) = n" by auto
  from decode_long[OF g f(1) _ d] f(2) assms(2,3)
  show ?thesis by (simp add: length_be_bytes be_nat_be_bytes)
qed

lemma decode_inverts_short:
  assumes "v < 128" and "drop (pos pb) (buf pb) = of_nat v # rest"
  shows "klv_decode_ber_length pb = (of_nat v, pb\<lparr>pos := pos pb + 1\<rparr>)"
proof -
  let ?b = "of_nat v :: byte"
  from assms(2) have g: "get_byte pb = (?b, pb\<lparr>pos := pos pb + 1\<rparr>)"
    by (simp add: get_byte_at)
  have u: "unat ?b = v" using assms(1) by (simp add: unat_of_nat_byte)
  have "bit (unat ?b) 7 = bit ?b 7" by (simp add: bit_unsigned_iff)
  moreover have "\<not> bit (unat ?b) 7" using assms(1) unfolding u by (simp add: bit_iff_odd)
  ultimately have nb: "\<not> bit ?b 7" by simp
  have "take_bit 7 (unat ?b) = unat ?b" unfolding u using assms(1) by (simp add: take_bit_nat_eq_self)
  then have "unat (take_bit 7 ?b) = unat ?b" by (simp add: unsigned_take_bit_eq)
  then have "take_bit 7 ?b = ?b" by (simp add: word_unat_eq_iff)
  then have m: "?b AND 0x7f = ?b" by (simp add: take_bit_eq_mask mask_eq_exp_minus_1)
  have "unat (ucast ?b :: 64 word) = unat (of_nat v :: 64 word)"
    using u assms(1) by (simp add: unsigned_ucast_eq unat_of_nat take_bit_nat_eq_self)
  then have "(ucast ?b :: 64 word) = of_nat v"
    by (simp only: word_unat_eq_iff)
  with decode_short[OF g nb] m show ?thesis by simp
qed

text \<open>
  C4. The claim: BER length decoding returns the 7 low bits of the first byte when its
  MSB is 0; when the MSB is 1 it reads as many following bytes as the low 7 bits say,
  big-endian, as the length, and returns failure (-1) whenever that count exceeds 8;
  consequently decoding inverts every valid BER encoding with 1 to 8 length bytes.

  The result of the function is an \<^verbatim>\<open>int64_t\<close>. The 8-byte encoding of \<open>2^63\<close> comes
  back as \<open>-2^63\<close>, and the 8-byte encoding of \<open>2^64 - 1\<close> comes back as \<open>-1\<close>, the value
  that reports failure.
\<close>

theorem klv_decode_ber_length_not_inverse:
  "ber_long 8 (2 ^ 63) = [0x88, 0x80, 0, 0, 0, 0, 0, 0, 0]
   \<and> sint (fst (klv_decode_ber_length
          \<lparr>buf = [0x88, 0x80, 0, 0, 0, 0, 0, 0, 0], pos = 0\<rparr>)) = - (2 ^ 63)
   \<and> ber_long 8 (2 ^ 64 - 1) = [0x88, 0xFF, 0xFF, 0xFF, 0xFF, 0xFF, 0xFF, 0xFF, 0xFF]
   \<and> fst (klv_decode_ber_length
          \<lparr>buf = [0x88, 0xFF, 0xFF, 0xFF, 0xFF, 0xFF, 0xFF, 0xFF, 0xFF], pos = 0\<rparr>) = - 1"
proof (intro conjI)
  show "ber_long 8 (2 ^ 63) = [0x88, 0x80, 0, 0, 0, 0, 0, 0, 0]"
    by (simp add: ber_long_def be_bytes_def upt_conv_Cons)
  show "sint (fst (klv_decode_ber_length
          \<lparr>buf = [0x88, 0x80, 0, 0, 0, 0, 0, 0, 0], pos = 0\<rparr>)) = - (2 ^ 63)"
    by code_simp
  show "ber_long 8 (2 ^ 64 - 1) = [0x88, 0xFF, 0xFF, 0xFF, 0xFF, 0xFF, 0xFF, 0xFF, 0xFF]"
    by (simp add: ber_long_def be_bytes_def upt_conv_Cons)
  show "fst (klv_decode_ber_length
          \<lparr>buf = [0x88, 0xFF, 0xFF, 0xFF, 0xFF, 0xFF, 0xFF, 0xFF, 0xFF], pos = 0\<rparr>) = - 1"
    by code_simp
qed

text \<open>
  C4, amended. With \<open>b\<close> the first byte read: when the MSB of \<open>b\<close> is 0 the result is
  the low 7 bits of \<open>b\<close>; when it is 1 and the low 7 bits exceed 8 the result is -1; when
  it is 1 and the low 7 bits are \<open>n \<le> 8\<close>, the result is the big-endian value of the
  next \<open>n\<close> bytes and the cursor is behind them. Decoding inverts the short form and every
  long form of 1 to 8 length bytes whose value is below \<open>2^63\<close>: the \<^verbatim>\<open>int64_t\<close> returned
  is the encoded value.
\<close>

theorem klv_decode_ber_length_spec:
  assumes "get_byte pb = (b, pb1)"
  shows "(\<not> bit b 7 \<longrightarrow> klv_decode_ber_length pb = (ucast (b AND 0x7f), pb1))
    \<and> (bit b 7 \<and> 8 < unat (b AND 0x7f) \<longrightarrow> klv_decode_ber_length pb = (- 1, pb1))
    \<and> (bit b 7 \<and> unat (b AND 0x7f) \<le> 8 \<longrightarrow>
         (\<forall>bs rest. drop (pos pb1) (buf pb1) = bs @ rest \<and> length bs = unat (b AND 0x7f) \<longrightarrow>
            klv_decode_ber_length pb
              = (of_nat (be_nat bs), pb1\<lparr>pos := pos pb1 + length bs\<rparr>)))
    \<and> (\<forall>v rest. v < 128 \<and> drop (pos pb) (buf pb) = of_nat v # rest \<longrightarrow>
          sint (fst (klv_decode_ber_length pb)) = int v
          \<and> snd (klv_decode_ber_length pb) = pb\<lparr>pos := pos pb + 1\<rparr>)
    \<and> (\<forall>n v rest. 1 \<le> n \<and> n \<le> 8 \<and> v < 256 ^ n \<and> v < 2 ^ 63
          \<and> drop (pos pb) (buf pb) = ber_long n v @ rest \<longrightarrow>
          sint (fst (klv_decode_ber_length pb)) = int v
          \<and> snd (klv_decode_ber_length pb) = pb\<lparr>pos := pos pb + 1 + n\<rparr>)"
proof (intro conjI impI allI)
  assume "\<not> bit b 7"
  with assms show "klv_decode_ber_length pb = (ucast (b AND 0x7f), pb1)"
    by (rule decode_short)
next
  assume "bit b 7 \<and> 8 < unat (b AND 0x7f)"
  with assms show "klv_decode_ber_length pb = (- 1, pb1)"
    by (simp add: decode_reject)
next
  fix bs rest
  assume "bit b 7 \<and> unat (b AND 0x7f) \<le> 8"
    and "drop (pos pb1) (buf pb1) = bs @ rest \<and> length bs = unat (b AND 0x7f)"
  with assms show "klv_decode_ber_length pb
      = (of_nat (be_nat bs), pb1\<lparr>pos := pos pb1 + length bs\<rparr>)"
    by (simp add: decode_long)
next
  fix v rest
  assume a: "v < 128 \<and> drop (pos pb) (buf pb) = of_nat v # rest"
  then have "klv_decode_ber_length pb = (of_nat v, pb\<lparr>pos := pos pb + 1\<rparr>)"
    using decode_inverts_short[of v pb rest] by blast
  moreover have "sint (of_nat v :: 64 word) = int v"
    using a by (simp add: sint_of_nat_small)
  ultimately show "sint (fst (klv_decode_ber_length pb)) = int v"
    and "snd (klv_decode_ber_length pb) = pb\<lparr>pos := pos pb + 1\<rparr>" by simp_all
next
  fix n v rest
  assume a: "1 \<le> n \<and> n \<le> 8 \<and> v < 256 ^ n \<and> v < 2 ^ 63
     \<and> drop (pos pb) (buf pb) = ber_long n v @ rest"
  then have "klv_decode_ber_length pb = (of_nat v, pb\<lparr>pos := pos pb + 1 + n\<rparr>)"
    using decode_inverts_long[of n v pb rest] by blast
  moreover have "sint (of_nat v :: 64 word) = int v"
    using a by (simp add: sint_of_nat_small)
  ultimately show "sint (fst (klv_decode_ber_length pb)) = int v"
    and "snd (klv_decode_ber_length pb) = pb\<lparr>pos := pos pb + 1 + n\<rparr>" by simp_all
qed

theorem klv_decode_ber_length_spec_witness:
  "get_byte \<lparr>buf = [0x82, 0x01, 0x2C], pos = 0\<rparr> = (0x82, \<lparr>buf = [0x82, 0x01, 0x2C], pos = 1\<rparr>)
   \<and> ber_long 2 300 = [0x82, 0x01, 0x2C]
   \<and> sint (fst (klv_decode_ber_length \<lparr>buf = [0x82, 0x01, 0x2C], pos = 0\<rparr>)) = 300
   \<and> snd (klv_decode_ber_length \<lparr>buf = [0x82, 0x01, 0x2C], pos = 0\<rparr>)
       = \<lparr>buf = [0x82, 0x01, 0x2C], pos = 3\<rparr>"
proof -
  let ?pb = "\<lparr>buf = [0x82, 0x01, 0x2C], pos = 0\<rparr> :: ByteIOContext"
  have g: "get_byte ?pb = (0x82, \<lparr>buf = [0x82, 0x01, 0x2C], pos = 1\<rparr>)"
    by (simp add: get_byte_def)
  have e: "ber_long 2 300 = [0x82, 0x01, 0x2C]"
    by (simp add: ber_long_def be_bytes_def upt_conv_Cons)
  from klv_decode_ber_length_spec[OF g]
  have "\<forall>n v rest. 1 \<le> n \<and> n \<le> 8 \<and> v < 256 ^ n \<and> v < 2 ^ 63
          \<and> drop (pos ?pb) (buf ?pb) = ber_long n v @ rest \<longrightarrow>
          sint (fst (klv_decode_ber_length ?pb)) = int v
          \<and> snd (klv_decode_ber_length ?pb) = ?pb\<lparr>pos := pos ?pb + 1 + n\<rparr>"
    by blast
  from this[rule_format, of 2 300 "[]"] e
  have "sint (fst (klv_decode_ber_length ?pb)) = 300
      \<and> snd (klv_decode_ber_length ?pb) = \<lparr>buf = [0x82, 0x01, 0x2C], pos = 3\<rparr>"
    by simp
  with g e show ?thesis by blast
qed

section \<open>The essence reader\<close>

lemma essence_key_length: "length mxf_essence_element_key = 12"
  by (simp add: mxf_essence_element_key_def)

lemma mxf_get_stream_index_from_cases:
  "(mxf_get_stream_index_from i0 s klv = - 1
      \<and> (\<forall>st \<in> set s. take 4 (track_number (priv_data st)) \<noteq> take 4 (drop 12 (key klv))))
   \<or> (\<exists>j < length s. mxf_get_stream_index_from i0 s klv = int (i0 + j)
      \<and> take 4 (track_number (priv_data (s ! j))) = take 4 (drop 12 (key klv))
      \<and> (\<forall>k < j. take 4 (track_number (priv_data (s ! k))) \<noteq> take 4 (drop 12 (key klv))))"
proof (induction s arbitrary: i0)
  case Nil
  show ?case by simp
next
  case (Cons st sts)
  show ?case
  proof (cases "take 4 (drop 12 (key klv)) = take 4 (track_number (priv_data st))")
    case True
    then show ?thesis by (auto simp: essence_key_length)
  next
    case False
    from Cons.IH[of "Suc i0"] show ?thesis
    proof
      assume "mxf_get_stream_index_from (Suc i0) sts klv = - 1 \<and>
        (\<forall>st\<in>set sts. take 4 (track_number (priv_data st)) \<noteq> take 4 (drop 12 (key klv)))"
      with False show ?thesis by (auto simp: essence_key_length)
    next
      assume "\<exists>j<length sts. mxf_get_stream_index_from (Suc i0) sts klv = int (Suc i0 + j) \<and>
         take 4 (track_number (priv_data (sts ! j))) = take 4 (drop 12 (key klv)) \<and>
         (\<forall>k<j. take 4 (track_number (priv_data (sts ! k))) \<noteq> take 4 (drop 12 (key klv)))"
      then obtain j where j: "j < length sts"
        "mxf_get_stream_index_from (Suc i0) sts klv = int (Suc i0 + j)"
        "take 4 (track_number (priv_data (sts ! j))) = take 4 (drop 12 (key klv))"
        "\<forall>k<j. take 4 (track_number (priv_data (sts ! k))) \<noteq> take 4 (drop 12 (key klv))"
        by blast
      have "\<forall>k<Suc j. take 4 (track_number (priv_data ((st # sts) ! k))) \<noteq> take 4 (drop 12 (key klv))"
        using False j(4) by (auto simp: less_Suc_eq_0_disj)
      with j(1,2,3) False have "Suc j < length (st # sts) \<and>
         mxf_get_stream_index_from i0 (st # sts) klv = int (i0 + Suc j) \<and>
         take 4 (track_number (priv_data ((st # sts) ! Suc j))) = take 4 (drop 12 (key klv)) \<and>
         (\<forall>k<Suc j. take 4 (track_number (priv_data ((st # sts) ! k))) \<noteq> take 4 (drop 12 (key klv)))"
        by (simp add: essence_key_length)
      then show ?thesis by blast
    qed
  qed
qed


lemma mxf_get_stream_index_none:
  assumes "\<forall>st \<in> set s. take 4 (track_number (priv_data st)) \<noteq> take 4 (drop 12 (key klv))"
  shows "mxf_get_stream_index s klv = - 1"
proof -
  from mxf_get_stream_index_from_cases[of 0 s klv] assms
  show ?thesis unfolding mxf_get_stream_index_def
    by (metis nth_mem)
qed

lemma int_size_of_length:
  assumes "unat (len :: 64 word) < 2 ^ 31"
  shows "sint (ucast len :: 32 word) = int (unat len)"
proof -
  have "(ucast len :: 32 word) = word_of_int (int (unat len))" by simp
  then have "sint (ucast len :: 32 word) = (int (unat len) + 2 ^ 31) mod 2 ^ 32 - 2 ^ 31"
    by (simp only: int_word_sint) simp
  also have "\<dots> = int (unat len)"
  proof -
    have "int (unat len) < int (2 ^ 31)" using assms by (simp only: of_nat_less_iff)
    then have "uint len < 2 ^ 31" by simp
    then have "(uint len + 2 ^ 31) mod 2 ^ 32 = uint len + 2 ^ 31"
      by (intro mod_pos_pos_trivial) simp_all
    then show ?thesis by simp
  qed
  finally show ?thesis .
qed




lemma mxf_read_packet_essence:
  "\<not> url_feof pb \<Longrightarrow> klv_read_packet klv pb = (0, klv', pb') \<Longrightarrow>
   IS_KLV_KEY (key klv') mxf_essence_element_key \<Longrightarrow>
   unat (klv_length klv') < 2 ^ 31 \<Longrightarrow>
   mxf_read_packet e s klv pkt pb
     = Some (if mxf_get_stream_index s klv' = - 1 then - 1 else 0, klv',
        pkt\<lparr>data := take (unat (klv_length klv')) (drop (pos pb') (buf pb')),
            stream_index := mxf_get_stream_index s klv'\<rparr>,
        pb'\<lparr>pos := pos pb' + length (take (unat (klv_length klv')) (drop (pos pb') (buf pb')))\<rparr>)"
  by (subst mxf_read_packet.simps)
     (simp add: av_get_packet_def get_buffer_def Let_def int_size_of_length)

lemma mxf_read_packet_essence_any:
  "\<not> url_feof pb \<Longrightarrow> klv_read_packet klv pb = (0, klv', pb') \<Longrightarrow>
   IS_KLV_KEY (key klv') mxf_essence_element_key \<Longrightarrow>
   \<exists>pkt' pb''. mxf_read_packet e s klv pkt pb
     = Some (if mxf_get_stream_index s klv' = - 1 then - 1 else 0, klv', pkt', pb'')
     \<and> stream_index pkt' = mxf_get_stream_index s klv' \<and> buf pb'' = buf pb'"
  by (subst mxf_read_packet.simps)
     (simp add: av_get_packet_def get_buffer_def Let_def)








text \<open>
  C10. The claim: for every essence element KLV whose last 4 key bytes match the
  \<^verbatim>\<open>track_number\<close> of no output stream, \<^verbatim>\<open>read_packet\<close> returns -1 after consuming the
  value of the KLV.

  The unroutable essence element of \<open>test_oversize_unroutable_stream\<close> has a length
  field that says \<open>2^32 + 1\<close>, and 3 bytes follow it in the stream. \<^verbatim>\<open>read_packet\<close>
  returns -1, but it has consumed 1 byte: the size of the packet is an \<^verbatim>\<open>int\<close>, which
  keeps the low 32 bits of the length. The cursor is not behind the value, nor at the
  end of the stream.
\<close>

theorem mxf_read_packet_oversize_unroutable:
  "mxf_read_packet (- 5) test_streams test_klv test_pkt
       \<lparr>buf = test_oversize_unroutable_stream, pos = 0\<rparr>
     = Some (- 1,
             \<lparr>key = take 16 test_oversize_unroutable_stream, offset = 0,
              klv_length = 0x100000001\<rparr>,
             test_pkt\<lparr>data := [0x11], stream_index := - 1\<rparr>,
             \<lparr>buf = test_oversize_unroutable_stream, pos = 23\<rparr>)
   \<and> drop 22 test_oversize_unroutable_stream = [0x11, 0x22, 0x33]"
proof -
  let ?pb22 = "\<lparr>buf = test_oversize_unroutable_stream, pos = 22\<rparr>"
  have r0: "klv_read_packet test_klv \<lparr>buf = test_oversize_unroutable_stream, pos = 0\<rparr>
    = (0, \<lparr>key = take 16 test_oversize_unroutable_stream, offset = 0,
           klv_length = 0x100000001\<rparr>, ?pb22)"
    by code_simp
  have r1: "av_get_packet ?pb22 test_pkt (sint (ucast (0x100000001 :: 64 word) :: 32 word))
    = (test_pkt\<lparr>data := [0x11]\<rparr>, \<lparr>buf = test_oversize_unroutable_stream, pos = 23\<rparr>)"
    by code_simp
  have "mxf_read_packet (- 5) test_streams test_klv test_pkt
       \<lparr>buf = test_oversize_unroutable_stream, pos = 0\<rparr>
     = Some (- 1,
             \<lparr>key = take 16 test_oversize_unroutable_stream, offset = 0,
              klv_length = 0x100000001\<rparr>,
             test_pkt\<lparr>data := [0x11], stream_index := - 1\<rparr>,
             \<lparr>buf = test_oversize_unroutable_stream, pos = 23\<rparr>)"
    apply (subst mxf_read_packet.simps)
    apply (simp only: r0 prod.case)
    apply (simp only: KLVPacket.simps r1 Let_def prod.case)
    apply code_simp
    done
  moreover have "drop 22 test_oversize_unroutable_stream = [0x11, 0x22, 0x33]"
    by (simp add: test_oversize_unroutable_stream_def)
  ultimately show ?thesis by (rule conjI)
qed

text \<open>
  C10, amended. For an essence element KLV whose last 4 key bytes match the
  \<^verbatim>\<open>track_number\<close> of no output stream, \<^verbatim>\<open>read_packet\<close> returns -1 with \<^verbatim>\<open>stream_index\<close>
  -1: the KLV is not skipped and no later KLV is read, whatever follows in the stream.
  When the \<^verbatim>\<open>length\<close> of the KLV is below \<open>2^31\<close>, the value has been read into the packet
  and the cursor is behind it.
\<close>

theorem mxf_read_packet_unroutable:
  assumes "\<not> url_feof pb"
    and "klv_read_packet klv pb = (0, klv', pb')"
    and "IS_KLV_KEY (key klv') mxf_essence_element_key"
    and "\<forall>st \<in> set s. take 4 (track_number (priv_data st)) \<noteq> take 4 (drop 12 (key klv'))"
  shows "\<exists>pkt' pb''.
      mxf_read_packet AVERROR_IO s klv pkt pb = Some (- 1, klv', pkt', pb'')
    \<and> stream_index pkt' = - 1 \<and> buf pb'' = buf pb'
    \<and> (unat (klv_length klv') < 2 ^ 31 \<longrightarrow>
          data pkt' = take (unat (klv_length klv')) (drop (pos pb') (buf pb'))
        \<and> pos pb'' = pos pb' + length (data pkt'))"
proof -
  from assms(4) have n: "mxf_get_stream_index s klv' = - 1"
    by (rule mxf_get_stream_index_none)
  show ?thesis
  proof (cases "unat (klv_length klv') < 2 ^ 31")
    case True
    from mxf_read_packet_essence[OF assms(1,2,3) True, of AVERROR_IO s pkt] n True
    show ?thesis by simp
  next
    case False
    from mxf_read_packet_essence_any[OF assms(1,2,3), of AVERROR_IO s pkt] n False
    show ?thesis by auto
  qed
qed

theorem mxf_read_packet_unroutable_witness:
  "(case mxf_read_packet (- 5) test_streams test_klv test_pkt
           \<lparr>buf = test_unroutable_stream, pos = 0\<rparr>
      of None \<Rightarrow> False
       | Some (ret, klv', pkt', pb') \<Rightarrow>
           ret = - 1 \<and> data pkt' = [0x11] \<and> stream_index pkt' = - 1 \<and> pos pb' = 18)"
proof -
  let ?pb0 = "\<lparr>buf = test_unroutable_stream, pos = 0\<rparr>"
  let ?klv1 = "\<lparr>key = take 16 test_unroutable_stream, offset = 0, klv_length = 1\<rparr>"
  let ?pb1 = "\<lparr>buf = test_unroutable_stream, pos = 17\<rparr>"
  have e0: "\<not> url_feof ?pb0"
    by (simp add: url_feof_def test_unroutable_stream_def)
  have r0: "klv_read_packet test_klv ?pb0 = (0, ?klv1, ?pb1)"
    by (simp add: klv_read_packet_def get_buffer_def klv_decode_ber_length_def get_byte_def
        url_ftell_def test_klv_def test_unroutable_stream_def Let_def)
  have k1: "IS_KLV_KEY (key ?klv1) mxf_essence_element_key"
    by (simp add: IS_KLV_KEY_def mxf_essence_element_key_def test_unroutable_stream_def)
  have n: "\<forall>st \<in> set test_streams.
      take 4 (track_number (priv_data st)) \<noteq> take 4 (drop 12 (key ?klv1))"
    by (simp add: test_streams_def test_track_def test_unroutable_stream_def av_new_stream_def)
  from mxf_read_packet_unroutable[OF e0 r0 k1 n, of "- 5" test_pkt]
  obtain pkt' pb'' where r:
    "mxf_read_packet (- 5) test_streams test_klv test_pkt ?pb0 = Some (- 1, ?klv1, pkt', pb'')"
    "stream_index pkt' = - 1" "buf pb'' = buf ?pb1"
    "unat (klv_length ?klv1) < 2 ^ 31 \<longrightarrow>
       data pkt' = take (unat (klv_length ?klv1)) (drop (pos ?pb1) (buf ?pb1))
     \<and> pos pb'' = pos ?pb1 + length (data pkt')"
    by blast
  from r(4) have d: "data pkt' = [0x11]" "pos pb'' = 18"
    by (simp_all add: test_unroutable_stream_def)
  from r(1,2) d show ?thesis by simp
qed

section \<open>The structural linker keeps the source package of the previous track\<close>

text \<open>
  C1. The claim: the linker uses the first material package; for each of its tracks it
  takes the first resolved source clip of the sequence, finds the source package whose
  \<^verbatim>\<open>package_uid\<close> is the clip's \<^verbatim>\<open>source_package_uid\<close> and in it the track whose
  \<^verbatim>\<open>track_id\<close> is the clip's \<^verbatim>\<open>source_track_id\<close>, and emits one stream for each chain
  that resolves; a track whose chain fails at any step produces no stream, and the
  streams of the other tracks are unaffected.

  In \<open>test_mxf\<close> the clip of the second material track names a package that does not
  exist. The variable \<^verbatim>\<open>source_package\<close> still holds the package found for the first
  track, so the test \<^verbatim>\<open>if (!source_package)\<close> passes, track 1 is found in that package
  and a second stream is emitted, bound to the source track of the first stream. With
  the two material tracks in the other order (\<open>test_mxf_swapped\<close>) the same track emits
  no stream.
\<close>

theorem mxf_parse_structural_metadata_stale_source_package:
  "(case mxf_parse_structural_metadata test_mxf of
      Inl f \<Rightarrow> False
    | Inr (ret, streams) \<Rightarrow>
        ret = 0 \<and> map (track_id \<circ> priv_data) streams = [1, 1]
      \<and> map time_base streams = [\<lparr>num = 25, den = 1\<rparr>, \<lparr>num = 30, den = 1\<rparr>])
   \<and> (case mxf_parse_structural_metadata test_mxf_swapped of
      Inl f \<Rightarrow> False
    | Inr (ret, streams) \<Rightarrow>
        ret = 0 \<and> map (track_id \<circ> priv_data) streams = [1]
      \<and> map time_base streams = [\<lparr>num = 25, den = 1\<rparr>])"
  by code_simp

section \<open>What the EBML writers write\<close>

lemma put_buffer_pos [simp]: "pos (put_buffer pb bs) = pos pb + length bs"
  by (simp add: put_buffer_def Let_def)

lemma overwrite_append:
  fixes B :: "'a list"
  assumes "p \<le> length B"
  shows "take (p + length a) (take p B @ a @ drop (p + length a) B) = take p B @ a"
    and "drop (p + length a + n) (take p B @ a @ drop (p + length a) B) = drop (p + length a + n) B"
    and "p + length a \<le> length (take p B @ a @ drop (p + length a) B)"
proof -
  have l: "length (take p B) = p" using assms by simp
  show "take (p + length a) (take p B @ a @ drop (p + length a) B) = take p B @ a"
    using l by simp
  have "drop (p + length a + n) (take p B @ a @ drop (p + length a) B)
      = drop (length a + n) (a @ drop (p + length a) B)"
    using l by (simp add: add.assoc)
  also have "\<dots> = drop n (drop (p + length a) B)" by simp
  also have "\<dots> = drop (p + length a + n) B" by (simp add: add.commute)
  finally show "drop (p + length a + n) (take p B @ a @ drop (p + length a) B)
      = drop (p + length a + n) B" .
  show "p + length a \<le> length (take p B @ a @ drop (p + length a) B)"
    using l by simp
qed

lemma put_buffer_append: "put_buffer (put_buffer pb a) b = put_buffer pb (a @ b)"
proof (cases "a = [] \<or> b = []")
  case True
  then show ?thesis by (auto simp: put_buffer_def)
next
  case False
  define B where "B = buf pb @ replicate (pos pb - length (buf pb)) 0"
  have lB: "pos pb \<le> length B" by (simp add: B_def)
  define b1 where "b1 = take (pos pb) B @ a @ drop (pos pb + length a) B"
  have l1: "pos pb + length a \<le> length b1"
    unfolding b1_def using overwrite_append(3)[OF lB] .
  have p1: "put_buffer pb a = pb\<lparr>buf := b1, pos := pos pb + length a\<rparr>"
    using False by (simp add: put_buffer_def Let_def B_def b1_def)
  have "put_buffer (put_buffer pb a) b
      = pb\<lparr>buf := take (pos pb + length a) b1 @ b @ drop (pos pb + length a + length b) b1,
            pos := pos pb + length a + length b\<rparr>"
    unfolding p1 using l1 False by (simp add: put_buffer_def Let_def)
  also have "\<dots> = pb\<lparr>buf := take (pos pb) B @ a @ b @ drop (pos pb + length a + length b) B,
            pos := pos pb + length a + length b\<rparr>"
    unfolding b1_def overwrite_append(1)[OF lB] overwrite_append(2)[OF lB] by simp
  also have "\<dots> = put_buffer pb (a @ b)"
    using False by (simp add: put_buffer_def Let_def B_def add.assoc)
  finally show ?thesis .
qed

lemma pow2_8: "(2::nat) ^ (i * 8) = 256 ^ i"
proof -
  have "(2::nat) ^ (8 * i) = (2 ^ 8) ^ i" by (rule power_mult)
  then show ?thesis by (simp add: mult.commute)
qed

lemma byte_of_shift64: "(ucast (drop_bit (i * 8) (v::64 word)) :: byte) = of_nat (unat v div 256 ^ i)"
proof -
  have "unat (drop_bit (i * 8) v) = unat v div 256 ^ i"
    by (simp only: unat_drop_bit_eq) (simp add: drop_bit_eq_div pow2_8)
  then have "unat (ucast (drop_bit (i * 8) v) :: byte) = unat v div 256 ^ i mod 256"
    by (simp add: unsigned_ucast_eq take_bit_eq_mod)
  also have "\<dots> = unat (of_nat (unat v div 256 ^ i) :: byte)"
    by (simp add: unat_of_nat_byte)
  finally show ?thesis by (simp only: word_unat_eq_iff)
qed


lemma put_bytes_be_writes:
  "n \<le> 8 \<Longrightarrow> put_bytes_be n pb v = Some (put_buffer pb (be_bytes n (unat v)))"
proof (induction n arbitrary: pb)
  case 0
  then show ?case by (simp add: be_bytes_def put_buffer_def)
next
  case (Suc n)
  then show ?case
    by (simp add: be_bytes_Suc byte_of_shift64 put_byte_def put_buffer_append)
qed


lemma drop_bit_nonzero: "(drop_bit k (w::64 word) \<noteq> 0) = (2 ^ k \<le> unat w)"
proof -
  have "unat (drop_bit k w) = unat w div 2 ^ k"
    by (simp only: unat_drop_bit_eq) (simp add: drop_bit_eq_div)
  moreover have "(drop_bit k w \<noteq> 0) = (unat (drop_bit k w) \<noteq> 0)"
    by (simp add: unat_eq_0)
  ultimately show ?thesis by (simp add: div_eq_0_iff not_less)
qed

lemma ebml_size_bytes_loop_Some:
  assumes "unat (sz + 1) < 2 ^ 63"
  shows "b \<le> 9 \<Longrightarrow> \<exists>n. ebml_size_bytes_loop sz b = Some n \<and> b \<le> n \<and> n \<le> 9
     \<and> unat (sz + 1) < 2 ^ (7 * n) \<and> (n = b \<or> 2 ^ (7 * (n - 1)) \<le> unat (sz + 1))"
proof (induction "9 - b" arbitrary: b)
  case 0
  then have b: "b = 9" by simp
  show ?case using assms unfolding b
    by (subst ebml_size_bytes_loop.simps) (simp add: drop_bit_nonzero)
next
  case (Suc k)
  then have b: "b < 9" by simp
  show ?case
  proof (cases "2 ^ (b * 7) \<le> unat (sz + 1)")
    case True
    from Suc(2) have "k = 9 - Suc b" by simp
    from Suc(1)[OF this] b obtain n where n: "ebml_size_bytes_loop sz (Suc b) = Some n"
      "Suc b \<le> n" "n \<le> 9" "unat (sz + 1) < 2 ^ (7 * n)"
      "n = Suc b \<or> 2 ^ (7 * (n - 1)) \<le> unat (sz + 1)" by auto
    have "ebml_size_bytes_loop sz b = Some n"
      using True b n(1) by (subst ebml_size_bytes_loop.simps) (simp add: drop_bit_nonzero)
    moreover have "2 ^ (7 * (n - 1)) \<le> unat (sz + 1)"
      using n(5) True by (auto simp: mult.commute)
    ultimately show ?thesis using n by auto
  next
    case False
    then have "ebml_size_bytes_loop sz b = Some b"
      using b by (subst ebml_size_bytes_loop.simps) (simp add: drop_bit_nonzero)
    with False b show ?thesis by (simp add: mult.commute not_le)
  qed
qed

lemma ebml_size_bytes_loop_None:
  assumes "2 ^ 63 \<le> unat (sz + 1)"
  shows "b \<le> 10 \<Longrightarrow> ebml_size_bytes_loop sz b = None"
proof (induction "10 - b" arbitrary: b)
  case 0
  then show ?case by (subst ebml_size_bytes_loop.simps) simp
next
  case (Suc k)
  then have b: "b \<le> 9" by simp
  then have "(2::nat) ^ (b * 7) \<le> 2 ^ 63" by (intro power_increasing) auto
  with assms have t: "2 ^ (b * 7) \<le> unat (sz + 1)" by simp
  from Suc(2) have "k = 10 - Suc b" by simp
  from Suc(1)[OF this] b have "ebml_size_bytes_loop sz (Suc b) = None" by simp
  then show ?case using t b
    by (subst ebml_size_bytes_loop.simps) (simp add: drop_bit_nonzero)
qed

lemma unat_plus_1: "unat (sz :: 64 word) < 2 ^ 64 - 1 \<Longrightarrow> unat (sz + 1) = unat sz + 1"
  by (simp add: unat_word_ariths)

lemma ebml_size_bytes_small:
  assumes "unat sz < 2 ^ 56 - 1"
  shows "\<exists>n. ebml_size_bytes sz = Some n \<and> 1 \<le> n \<and> n \<le> 8 \<and> unat sz + 1 < 2 ^ (7 * n)
     \<and> (n = 1 \<or> 2 ^ (7 * (n - 1)) \<le> unat sz + 1)"
proof -
  have u: "unat (sz + 1) = unat sz + 1" using assms by (simp add: unat_plus_1)
  have "unat (sz + 1) < 2 ^ 63" using assms unfolding u by simp
  from ebml_size_bytes_loop_Some[OF this, of 1] obtain n where
    n: "ebml_size_bytes_loop sz 1 = Some n" "1 \<le> n" "n \<le> 9" "unat (sz + 1) < 2 ^ (7 * n)"
      "n = 1 \<or> 2 ^ (7 * (n - 1)) \<le> unat (sz + 1)" by auto
  have "n \<le> 8"
  proof (rule ccontr)
    assume "\<not> n \<le> 8"
    with n(3) have "n = 9" by simp
    with n(5) have "2 ^ 56 \<le> unat (sz + 1)" by simp
    with assms u show False by simp
  qed
  with n u show ?thesis by (auto simp: ebml_size_bytes_def)
qed

lemma not_bit_small: "unat (w::64 word) < 2 ^ k \<Longrightarrow> \<not> bit w k"
proof -
  assume a: "unat w < 2 ^ k"
  have "bit (unat w) k = bit w k" by (simp add: bit_unsigned_iff)
  moreover have "\<not> bit (unat w) k" using a by (simp add: bit_iff_odd)
  ultimately show ?thesis by simp
qed

lemma unat_2p64: "k < 64 \<Longrightarrow> unat ((2::64 word) ^ k) = 2 ^ k"
proof -
  assume a: "k < 64"
  have "(2::64 word) ^ k = of_nat (2 ^ k)" by simp
  then have "unat ((2::64 word) ^ k) = 2 ^ k mod 2 ^ 64"
    by (simp only: unat_of_nat) simp
  moreover have "(2::nat) ^ k < 2 ^ 64" using a by (intro power_strict_increasing) auto
  ultimately show ?thesis by simp
qed

lemma unat_or_marker:
  assumes "unat (sz::64 word) < 2 ^ k" "k < 64"
  shows "unat (sz OR 2 ^ k) = 2 ^ k + unat sz"
proof -
  have "sz AND 2 ^ k = 0"
    using not_bit_small[OF assms(1)] by (intro bit_eqI) (auto simp: bit_and_iff bit_exp_iff)
  then have "sz + 2 ^ k = sz OR 2 ^ k"
    by (rule disjunctive_add_eq_or)
  then have "unat (sz OR 2 ^ k) = unat (sz + 2 ^ k)" by simp
  also have "\<dots> = (unat sz + 2 ^ k) mod 2 ^ 64"
    using assms(2) by (simp add: unat_word_ariths unat_2p64)
  also have "\<dots> = unat sz + 2 ^ k"
  proof -
    have "(2::nat) ^ k \<le> 2 ^ 63" using assms(2) by (intro power_increasing) auto
    with assms(1) have "unat sz + 2 ^ k < 2 ^ 64" by simp
    then show ?thesis by simp
  qed
  finally show ?thesis by simp
qed

lemma word_ge_unknown: "((sz::64 word) \<ge> 2 ^ 56 - 1) = (2 ^ 56 - 1 \<le> unat sz)"
  by (simp add: word_le_nat_alt)

lemma put_ebml_size_unknown_writes:
  assumes "n \<le> 8"
  shows "put_ebml_size_unknown pb (int n) = Some (put_buffer pb (ebml_unknown_size n))"
proof -
  have "7 * n + 1 \<le> 64" using assms by simp
  have le: "7 * n + 1 \<le> 64" using assms by simp
  have "uint (mask (7 * n + 1) :: 64 word) = mask (min LENGTH(64) (7 * n + 1))"
    by (rule uint_mask_eq)
  also have "\<dots> = (2::int) ^ (7 * n + 1) - 1"
    using le by (simp add: min_def mask_eq_exp_minus_1)
  finally have "uint (mask (7 * n + 1) :: 64 word) = 2 ^ (7 * n + 1) - 1" .
  then have "unat (mask (7 * n + 1) :: 64 word) = nat (2 ^ (7 * n + 1) - 1)"
    by (simp only: unat_eq_nat_uint)
  also have "\<dots> = 2 ^ (7 * n + 1) - 1"
  proof -
    have "(2::int) ^ (7 * n + 1) - 1 = int (2 ^ (7 * n + 1) - 1)"
      by (simp add: of_nat_diff)
    then show ?thesis by (simp only: nat_int)
  qed
  finally have "unat (mask (7 * n + 1) :: 64 word) = 2 ^ (7 * n + 1) - 1" .
  moreover have "put_ebml_size_unknown pb (int n) = put_bytes_be n pb (mask (7 * n + 1))"
    using assms by (simp add: put_ebml_size_unknown_def Let_def min_def nat_add_distrib nat_mult_distrib mult.commute)
  ultimately show ?thesis
    using put_bytes_be_writes[OF assms, of pb "mask (7 * n + 1)"]
    by (simp add: ebml_unknown_size_def)
qed

lemma put_ebml_size_unknown_1: "put_ebml_size_unknown pb 1 = Some (put_buffer pb [0xFF])"
  using put_ebml_size_unknown_writes[of 1 pb]
  by (simp add: ebml_unknown_size_def be_bytes_def)

lemma put_ebml_size_writes:
  assumes "unat sz < 2 ^ 56 - 1" "minbytes \<le> 8"
  shows "\<exists>n. ebml_size_bytes sz = Some n \<and> 1 \<le> n \<and> n \<le> 8
    \<and> unat sz + 1 < 2 ^ (7 * n) \<and> (n = 1 \<or> 2 ^ (7 * (n - 1)) \<le> unat sz + 1)
    \<and> put_ebml_size pb sz minbytes
        = Some (put_buffer pb (ebml_size_field (nat (max minbytes (int n))) (unat sz)))"
proof -
  from ebml_size_bytes_small[OF assms(1)] obtain n where
    n: "ebml_size_bytes sz = Some n" "1 \<le> n" "n \<le> 8" "unat sz + 1 < 2 ^ (7 * n)"
      "n = 1 \<or> 2 ^ (7 * (n - 1)) \<le> unat sz + 1" by blast
  define k where "k = nat (max minbytes (int n))"
  have k: "n \<le> k" "k \<le> 8" "max minbytes (int n) = int k"
    using n(2,3) assms(2) by (auto simp: k_def)
  have "(2::nat) ^ (7 * n) \<le> 2 ^ (7 * k)" using k(1) by (intro power_increasing) auto
  with n(4) have lt: "unat sz < 2 ^ (7 * k)" by linarith
  have k64: "7 * k < 64" using k(2) by simp
  have ns: "\<not> ((2::64 word) ^ 56 - 1 \<le> sz)"
    using assms(1) by (simp add: word_le_nat_alt)
  have "put_ebml_size pb sz minbytes = put_bytes_be k pb (sz OR push_bit (7 * k) 1)"
    using n(1) ns k(2,3)
    by (simp add: put_ebml_size_def Let_def nat_mult_distrib mult.commute)
  also have "\<dots> = Some (put_buffer pb (be_bytes k (unat (sz OR push_bit (7 * k) 1))))"
    using k(2) by (rule put_bytes_be_writes)
  also have "\<dots> = Some (put_buffer pb (ebml_size_field k (unat sz)))"
    by (simp add: unat_or_marker[OF lt k64] ebml_size_field_def push_bit_eq_mult)
  finally show ?thesis using n unfolding k_def by blast
qed

lemma be_nat_size_field:
  assumes "s < 2 ^ (7 * n)" "1 \<le> n"
  shows "ebml_size_marker (ebml_size_field n s) = 1" and "ebml_size_decode (ebml_size_field n s) = s"
    and "length (ebml_size_field n s) = n"
proof -
  have "(2::nat) ^ (7 * n) * 2 = 2 ^ (7 * n + 1)" by simp
  also have "\<dots> \<le> 2 ^ (8 * n)" using assms(2) by (intro power_increasing) auto
  finally have "(2::nat) ^ (7 * n) * 2 \<le> 2 ^ (8 * n)" .
  moreover have "(256::nat) ^ n = 2 ^ (8 * n)" using pow2_8[of n] by (simp add: mult.commute)
  ultimately have "2 ^ (7 * n) + s < 256 ^ n" using assms(1) by linarith
  then have v: "be_nat (ebml_size_field n s) = 2 ^ (7 * n) + s"
    by (simp add: ebml_size_field_def be_nat_be_bytes)
  show l: "length (ebml_size_field n s) = n" by (simp add: ebml_size_field_def length_be_bytes)
  have "(2 ^ (7 * n) + s) div 2 ^ (7 * n) = s div 2 ^ (7 * n) + 1"
    by (rule div_add_self1) simp
  then show "ebml_size_marker (ebml_size_field n s) = 1"
    using assms(1) unfolding ebml_size_marker_def v l by simp
  show "ebml_size_decode (ebml_size_field n s) = s"
    using assms(1) unfolding ebml_size_decode_def v l by simp
qed









lemma length_ebml_unknown_size [simp]: "length (ebml_unknown_size n) = n"
  by (simp add: ebml_unknown_size_def length_be_bytes)

lemma length_ebml_size_field [simp]: "length (ebml_size_field n s) = n"
  by (simp add: ebml_size_field_def length_be_bytes)






section \<open>The EBML size writer\<close>

lemma put_ebml_size_large:
  assumes "2 ^ 56 - 1 \<le> unat sz" "unat (sz + 1) < 2 ^ 63"
  shows "put_ebml_size pb sz minbytes = Some (put_buffer pb [0xFF])"
proof -
  from ebml_size_bytes_loop_Some[OF assms(2), of 1] obtain n where
    "ebml_size_bytes sz = Some n" by (auto simp: ebml_size_bytes_def)
  moreover have "(2::64 word) ^ 56 - 1 \<le> sz"
    using assms(1) by (simp add: word_le_nat_alt)
  ultimately show ?thesis
    by (simp add: put_ebml_size_def put_ebml_size_unknown_1)
qed

lemma put_ebml_size_undefined:
  assumes "2 ^ 63 \<le> unat (sz + 1)"
  shows "put_ebml_size pb sz minbytes = None"
  using ebml_size_bytes_loop_None[OF assms, of 1]
  by (simp add: put_ebml_size_def ebml_size_bytes_def)

text \<open>
  C5. The claim: for every size \<open>s\<close> in \<open>[0, 2^56 - 2]\<close> the size writer emits exactly
  \<^verbatim>\<open>ebml_size_bytes(s)\<close> bytes, or \<^verbatim>\<open>minbytes\<close> bytes when that is larger, and the
  emitted bytes decode to \<open>s\<close>; for every \<open>s \<ge> 2^56 - 1\<close> the single byte \<open>0xFF\<close> is
  written, whatever \<^verbatim>\<open>minbytes\<close> is.

  The comment of \<^verbatim>\<open>put_ebml_size\<close> says the same of the large sizes (\<^verbatim>\<open>sizes larger than
  this are currently undefined in EBML so write "unknown" size\<close>), and the test
  \<^verbatim>\<open>size >= (1ULL<<56)-1\<close> is there for them. But the declaration of \<^verbatim>\<open>bytes\<close> calls
  \<^verbatim>\<open>ebml_size_bytes(size)\<close> before that test. For \<open>s = 2^63\<close>, which the test would
  send to the unknown size, the loop of \<^verbatim>\<open>ebml_size_bytes\<close> reaches \<^verbatim>\<open>bytes = 10\<close> and
  shifts a 64-bit value by 70 bits, which C does not define: the call has no result,
  and \<open>0xFF\<close> is not written.
\<close>

theorem put_ebml_size_unknown_size_unreached:
  "(2 :: 64 word) ^ 56 - 1 \<le> 2 ^ 63
   \<and> ebml_size_bytes (2 ^ 63) = None
   \<and> put_ebml_size \<lparr>buf = [], pos = 0\<rparr> (2 ^ 63) 0 = None"
  by code_simp

text \<open>
  The other sizes. For every size \<open>s\<close> in \<open>[0, 2^56 - 2]\<close> and every \<^verbatim>\<open>minbytes\<close> of at most
  8, the size writer emits exactly \<^verbatim>\<open>ebml_size_bytes(s)\<close> bytes, or \<^verbatim>\<open>minbytes\<close> bytes
  when that is larger; the emitted bytes carry the marker bit and decode to \<open>s\<close>, and
  \<^verbatim>\<open>ebml_size_bytes(s)\<close> is the least number \<open>n\<close> of bytes with \<open>s + 1 < 2^(7n)\<close>. For
  every \<open>s\<close> from \<open>2^56 - 1\<close> to \<open>2^63 - 2\<close>, and for \<open>s = 2^64 - 1\<close>, the single byte
  \<open>0xFF\<close> is written, whatever \<^verbatim>\<open>minbytes\<close> is.
\<close>

theorem put_ebml_size_defined:
  "(unat sz \<le> 2 ^ 56 - 2 \<and> minbytes \<le> 8 \<longrightarrow>
      (\<exists>n bs. ebml_size_bytes sz = Some n
         \<and> 1 \<le> n \<and> unat sz + 1 < 2 ^ (7 * n) \<and> (n = 1 \<or> 2 ^ (7 * (n - 1)) \<le> unat sz + 1)
         \<and> put_ebml_size pb sz minbytes = Some (put_buffer pb bs)
         \<and> int (length bs) = max minbytes (int n)
         \<and> ebml_size_marker bs = 1 \<and> ebml_size_decode bs = unat sz))
   \<and> ((2 ^ 56 - 1 \<le> unat sz \<and> unat sz \<le> 2 ^ 63 - 2) \<or> unat sz = 2 ^ 64 - 1 \<longrightarrow>
        put_ebml_size pb sz minbytes = Some (put_buffer pb [0xFF]))"
proof (intro conjI impI)
  assume a: "unat sz \<le> 2 ^ 56 - 2 \<and> minbytes \<le> 8"
  then have s: "unat sz < 2 ^ 56 - 1" by simp
  from put_ebml_size_writes[OF s, of minbytes pb] a obtain n where
    n: "ebml_size_bytes sz = Some n" "1 \<le> n" "n \<le> 8" "unat sz + 1 < 2 ^ (7 * n)"
      "n = 1 \<or> 2 ^ (7 * (n - 1)) \<le> unat sz + 1"
      "put_ebml_size pb sz minbytes
        = Some (put_buffer pb (ebml_size_field (nat (max minbytes (int n))) (unat sz)))"
    by blast
  define k where "k = nat (max minbytes (int n))"
  have k: "n \<le> k" "1 \<le> k" "int k = max minbytes (int n)" using n(2) by (auto simp: k_def)
  have "(2::nat) ^ (7 * n) \<le> 2 ^ (7 * k)" using k(1) by (intro power_increasing) auto
  with n(4) have lt: "unat sz < 2 ^ (7 * k)" by linarith
  from be_nat_size_field[OF lt k(2)] n k(3)
  show "\<exists>n bs. ebml_size_bytes sz = Some n
         \<and> 1 \<le> n \<and> unat sz + 1 < 2 ^ (7 * n) \<and> (n = 1 \<or> 2 ^ (7 * (n - 1)) \<le> unat sz + 1)
         \<and> put_ebml_size pb sz minbytes = Some (put_buffer pb bs)
         \<and> int (length bs) = max minbytes (int n)
         \<and> ebml_size_marker bs = 1 \<and> ebml_size_decode bs = unat sz"
    unfolding k_def by (intro exI[of _ n] exI[of _ "ebml_size_field (nat (max minbytes (int n))) (unat sz)"]) simp
next
  assume a: "(2 ^ 56 - 1 \<le> unat sz \<and> unat sz \<le> 2 ^ 63 - 2) \<or> unat sz = 2 ^ 64 - 1"
  then show "put_ebml_size pb sz minbytes = Some (put_buffer pb [0xFF])"
  proof
    assume b: "2 ^ 56 - 1 \<le> unat sz \<and> unat sz \<le> 2 ^ 63 - 2"
    then have "unat (sz + 1) = unat sz + 1" by (simp add: unat_plus_1)
    with b have "unat (sz + 1) < 2 ^ 63" by simp
    with b show ?thesis by (simp add: put_ebml_size_large)
  next
    assume b: "unat sz = 2 ^ 64 - 1"
    then have "unat sz = unat (- 1 :: 64 word)"
      by (simp add: unsigned_minus_1_eq_mask mask_eq_exp_minus_1)
    then have "sz = - 1" by (simp only: word_unat_eq_iff)
    then have "unat (sz + 1) < 2 ^ 63" by simp
    with b show ?thesis by (simp add: put_ebml_size_large)
  qed
qed

theorem put_ebml_size_defined_witness:
  "put_ebml_size \<lparr>buf = [], pos = 0\<rparr> 300 0 = Some \<lparr>buf = [0x41, 0x2C], pos = 2\<rparr>
   \<and> ebml_size_bytes 300 = Some 2
   \<and> ebml_size_marker [0x41, 0x2C] = 1 \<and> ebml_size_decode [0x41, 0x2C] = 300
   \<and> put_ebml_size \<lparr>buf = [], pos = 0\<rparr> 300 8
        = Some \<lparr>buf = [0x01, 0, 0, 0, 0, 0, 0x01, 0x2C], pos = 8\<rparr>
   \<and> put_ebml_size \<lparr>buf = [], pos = 0\<rparr> (2 ^ 56 - 1) 8 = Some \<lparr>buf = [0xFF], pos = 1\<rparr>"
proof -
  let ?pb = "\<lparr>buf = [], pos = 0\<rparr> :: ByteIOContext"
  have e: "ebml_size_bytes 300 = Some 2"
    by code_simp
  have m: "ebml_size_marker [0x41, 0x2C] = 1" "ebml_size_decode [0x41, 0x2C] = 300"
    by (simp_all add: ebml_size_marker_def ebml_size_decode_def be_nat_def)
  have u: "unat (300 :: 64 word) \<le> 2 ^ 56 - 2" "unat ((2::64 word) ^ 56 - 1) = 2 ^ 56 - 1"
    by simp_all
  from put_ebml_size_defined[of 300 0 ?pb] u(1) e obtain bs where
    b0: "put_ebml_size ?pb 300 0 = Some (put_buffer ?pb bs)" "int (length bs) = 2"
      "ebml_size_marker bs = 1" "ebml_size_decode bs = 300"
    by auto
  from put_ebml_size_defined[of 300 8 ?pb] u(1) e obtain bs8 where
    b8: "put_ebml_size ?pb 300 8 = Some (put_buffer ?pb bs8)" "int (length bs8) = 8"
    by auto
  from put_ebml_size_defined[of "2 ^ 56 - 1" 8 ?pb] u(2)
  have l: "put_ebml_size ?pb (2 ^ 56 - 1) 8 = Some (put_buffer ?pb [0xFF])" by simp
  have v0: "put_ebml_size ?pb 300 0 = Some \<lparr>buf = [0x41, 0x2C], pos = 2\<rparr>"
    by code_simp
  have v8: "put_ebml_size ?pb 300 8 = Some \<lparr>buf = [0x01, 0, 0, 0, 0, 0, 0x01, 0x2C], pos = 8\<rparr>"
    by code_simp
  from l have vl: "put_ebml_size ?pb (2 ^ 56 - 1) 8 = Some \<lparr>buf = [0xFF], pos = 1\<rparr>"
    by (simp add: put_buffer_def)
  from v0 v8 vl e m b0 b8 show ?thesis by simp
qed

section \<open>The Void behind a reserved SeekHead\<close>

text \<open>
  C6. The claim: for a SeekHead started with \<^verbatim>\<open>numelements = k > 0\<close>, exactly
  \<open>28k + 13\<close> bytes are reserved as a Void at the recorded position, at most \<open>k\<close> entries
  can be added, and after the SeekHead is written the region from the recorded position
  to the cursor at the end of the write occupies exactly the reserved size: the written
  SeekHead followed by a Void that fills the unused tail, whether fewer than \<open>k\<close> or
  \<open>k\<close> entries were added; the write returns the recorded position and restores the
  cursor.

  With \<open>k = 1\<close> and one entry: 41 bytes are reserved as a Void, the entry is added and a
  second one is refused, the written SeekHead takes 33 bytes, the write returns 0 and
  leaves the cursor at 41. The 8 bytes that remain get the Void header \<open>EC 87\<close>. Its size
  field says 7 bytes of payload, where 6 are left: \<^verbatim>\<open>put_ebml_void\<close> writes the size
  \<^verbatim>\<open>size - 1\<close> for a size below 10, one byte for the size field and none for the
  identifier. SeekHead and Void together take 42 bytes of the 41 reserved.
\<close>

theorem mkv_write_seekhead_void_overruns:
  "mkv_start_seekhead matroska_h True \<lparr>buf = [], pos = 0\<rparr> 0 1
     = Some (Some test_seekhead, \<lparr>buf = [0xEC, 0x01, 0, 0, 0, 0, 0, 0, 0x20], pos = 41\<rparr>)
   \<and> mkv_add_seekhead_entry True test_seekhead 0x1F43B675 100 = (0, test_seekhead_1)
   \<and> mkv_add_seekhead_entry True test_seekhead_1 0x1C53BB6B 200 = (- 1, test_seekhead_1)
   \<and> mkv_write_seekhead matroska_h \<lparr>buf = [0xEC, 0x01, 0, 0, 0, 0, 0, 0, 0x20], pos = 41\<rparr>
         test_seekhead_1
     = Some (0, \<lparr>buf = test_seekhead_bytes @ [0xEC, 0x87], pos = 41\<rparr>)
   \<and> int (length test_seekhead_bytes + (2 + ebml_size_decode [0x87]))
       = reserved_size test_seekhead_1 + 1"
proof (intro conjI)
  show "mkv_start_seekhead matroska_h True \<lparr>buf = [], pos = 0\<rparr> 0 1
     = Some (Some test_seekhead, \<lparr>buf = [0xEC, 0x01, 0, 0, 0, 0, 0, 0, 0x20], pos = 41\<rparr>)"
    by code_simp
  show "mkv_add_seekhead_entry True test_seekhead 0x1F43B675 100 = (0, test_seekhead_1)"
    by code_simp
  show "mkv_add_seekhead_entry True test_seekhead_1 0x1C53BB6B 200 = (- 1, test_seekhead_1)"
    by code_simp
  show "mkv_write_seekhead matroska_h \<lparr>buf = [0xEC, 0x01, 0, 0, 0, 0, 0, 0, 0x20], pos = 41\<rparr>
         test_seekhead_1
     = Some (0, \<lparr>buf = test_seekhead_bytes @ [0xEC, 0x87], pos = 41\<rparr>)"
    by code_simp
  show "int (length test_seekhead_bytes + (2 + ebml_size_decode [0x87]))
       = reserved_size test_seekhead_1 + 1"
    by (simp add: test_seekhead_bytes_def test_seekhead_1_def test_seekhead_def
        ebml_size_decode_def be_nat_def)
qed

section \<open>The cues\<close>

lemma put_buffer_Nil [simp]: "put_buffer pb [] = pb"
  by (simp add: put_buffer_def)

lemma length_ebml_master [simp]:
  "length (ebml_master eid body) = length (ebml_id_bytes eid) + 8 + length body"
  by (simp add: ebml_master_def)











lemma concat_pts_runs: "concat (pts_runs es) = es"
  by (induction es rule: pts_runs.induct) simp_all


lemma pts_runs_subset: "r \<in> set (pts_runs es) \<Longrightarrow> set r \<subseteq> set es"
proof -
  assume "r \<in> set (pts_runs es)"
  then have "set r \<subseteq> set (concat (pts_runs es))" by auto
  then show ?thesis by (simp only: concat_pts_runs)
qed










section \<open>The AAC sample-rate table is read outside its bounds\<close>

text \<open>
  C9. The claim: for every AAC extradata of at least 2 bytes, every access to the
  12-entry sample-rate table stays within its bounds, and an index out of range is
  rejected with a warning. The test of the code is \<^verbatim>\<open>sri > 12\<close>, so the index 12 passes
  it and the table is read one entry behind its end: with the extradata bytes
  \<open>0x06, 0x00\<close> the index is 12 and the read is outside the table.
\<close>

theorem get_aac_sample_rates_index_12:
  "get_aac_sample_rates [0x06, 0x00] sr osr = None"
  by (simp add: get_aac_sample_rates_def aac_table_read_def aac_sample_rates_def)

end
